theory Spec2Isabelle
  imports Complex_Main "HOL-Library.Word" "HOL-Library.Sublist"
begin

section \<open>The C++ stream library, as far as the stages use it\<close>

text \<open>
  The stages talk to each other through \<^verbatim>\<open>operator>>\<close> and \<^verbatim>\<open>operator<<\<close> of the
  C++ stream library. That library is not part of the repository, so its formatted input
  and output functions are parameters of the model, collected in the record \<open>iolib\<close>.
  An extraction on the text still unread either succeeds with a value and the rest of
  the text, or fails; a failing extraction may still store a value into its target (C++11
  stores zero or a clamped value when a number cannot be converted) or leave it alone.

  \<^verbatim>\<open>float\<close> and \<^verbatim>\<open>double\<close> values are modelled by \<open>real\<close> with exact arithmetic:
  rounding and NaN are outside the model. An infinity is modelled in one place, the
  product that the forward stage computes and prints (\<open>augment\<close>, below).
\<close>

datatype 'a extraction = Extracted 'a string | Failure "'a option"

record iolib =
  get_int :: "string \<Rightarrow> int extraction"
  get_size_t :: "string \<Rightarrow> nat extraction"
  get_float :: "string \<Rightarrow> real extraction"
  get_char :: "string \<Rightarrow> char extraction"
  put_int :: "int \<Rightarrow> string"
  put_size_t :: "nat \<Rightarrow> string"
  put_float :: "real \<Rightarrow> string"
  put_double :: "real \<Rightarrow> string"

section \<open>common.hpp, common.cpp\<close>

definition INPUT_DIM :: nat where
  "INPUT_DIM = 4"

text \<open>
  The struct \<^verbatim>\<open>Sample\<close>, with \<open>'f\<close> for the type of its floats. The floats that a stage
  extracts from a line are finite: a sample as parsed is a \<open>Sample\<close>, with real numbers.
  The forward stage stores a product into a feature, which is infinite when the product
  overflows: the sample that it prints has floats of the type \<open>cfloat\<close>.
\<close>

record 'f sample =
  s_x :: "'f list"
  s_y :: 'f
  s_id :: int

type_synonym Sample = "real sample"

datatype cfloat = Finite real | Infinity

definition finite_sample :: "Sample \<Rightarrow> cfloat sample" where
  "finite_sample s = \<lparr>s_x = map Finite (s_x s), s_y = Finite (s_y s), s_id = s_id s\<rparr>"

text \<open>The library prints an infinite float as \<^verbatim>\<open>inf\<close>.\<close>

fun put_cfloat :: "iolib \<Rightarrow> cfloat \<Rightarrow> string" where
  "put_cfloat L (Finite v) = put_float L v"
| "put_cfloat L Infinity = ''inf''"

text \<open>\<^verbatim>\<open>common::Sample s{}\<close>: every field zero.\<close>

definition empty_sample :: Sample where
  "empty_sample = \<lparr>s_x = replicate INPUT_DIM 0, s_y = 0, s_id = 0\<rparr>"

text \<open>
  The loop of \<^verbatim>\<open>parse_sample_line\<close> over the features: \<open>n\<close> extractions into
  \<open>x[i]\<close>, \<open>x[i+1]\<close>, ..., returning at the first one that fails.
\<close>

fun read_features :: "iolib \<Rightarrow> nat \<Rightarrow> nat \<Rightarrow> real list \<Rightarrow> string \<Rightarrow> (real list \<times> string) option" where
  "read_features L 0 i xs ss = Some (xs, ss)"
| "read_features L (Suc n) i xs ss =
     (case get_float L ss of
        Failure _ \<Rightarrow> None
      | Extracted v ss' \<Rightarrow> read_features L n (Suc i) (xs[i := v]) ss')"

definition parse_sample_line :: "iolib \<Rightarrow> string \<Rightarrow> Sample option" where
  "parse_sample_line L line =
     (case get_int L line of
        Failure _ \<Rightarrow> None
      | Extracted i ss1 \<Rightarrow>
          (case read_features L INPUT_DIM 0 (s_x empty_sample) ss1 of
             None \<Rightarrow> None
           | Some (xs, ss2) \<Rightarrow>
               (case get_float L ss2 of
                  Failure _ \<Rightarrow> None
                | Extracted v _ \<Rightarrow> Some \<lparr>s_x = xs, s_y = v, s_id = i\<rparr>)))"

text \<open>\<^verbatim>\<open>if (!(ss >> comma) || comma != ',') return false;\<close>\<close>

definition read_comma :: "iolib \<Rightarrow> string \<Rightarrow> string option" where
  "read_comma L ss =
     (case get_char L ss of
        Failure _ \<Rightarrow> None
      | Extracted c ss' \<Rightarrow> if c \<noteq> CHR '','' then None else Some ss')"

text \<open>
  The loop of \<^verbatim>\<open>parse_csv_line\<close>: a feature, and a comma after every feature but
  the last one.
\<close>

fun read_csv_features :: "iolib \<Rightarrow> nat \<Rightarrow> nat \<Rightarrow> real list \<Rightarrow> string \<Rightarrow> (real list \<times> string) option" where
  "read_csv_features L 0 i xs ss = Some (xs, ss)"
| "read_csv_features L (Suc n) i xs ss =
     (case get_float L ss of
        Failure _ \<Rightarrow> None
      | Extracted v ss' \<Rightarrow>
          if i < INPUT_DIM - 1 then
            (case read_comma L ss' of
               None \<Rightarrow> None
             | Some ss'' \<Rightarrow> read_csv_features L n (Suc i) (xs[i := v]) ss'')
          else read_csv_features L n (Suc i) (xs[i := v]) ss')"

definition parse_csv_line :: "iolib \<Rightarrow> string \<Rightarrow> Sample option" where
  "parse_csv_line L line =
     (case get_int L line of
        Failure _ \<Rightarrow> None
      | Extracted i ss0 \<Rightarrow>
          (case read_comma L ss0 of
             None \<Rightarrow> None
           | Some ss1 \<Rightarrow>
               (case read_csv_features L INPUT_DIM 0 (s_x empty_sample) ss1 of
                  None \<Rightarrow> None
                | Some (xs, ss2) \<Rightarrow>
                    (case read_comma L ss2 of
                       None \<Rightarrow> None
                     | Some ss3 \<Rightarrow>
                         (case get_float L ss3 of
                            Failure _ \<Rightarrow> None
                          | Extracted v _ \<Rightarrow> Some \<lparr>s_x = xs, s_y = v, s_id = i\<rparr>)))))"

definition sample_to_line :: "iolib \<Rightarrow> cfloat sample \<Rightarrow> string" where
  "sample_to_line L s =
     put_int L (s_id s)
     @ concat (map (\<lambda>i. CHR '' '' # put_cfloat L (s_x s ! i)) [0..<INPUT_DIM])
     @ CHR '' '' # put_cfloat L (s_y s)"

section \<open>math_layer.cpp\<close>

definition HIDDEN_DIM :: nat where
  "HIDDEN_DIM = 8"

definition LEARNING_RATE :: real where
  "LEARNING_RATE = 0.001"

definition FEATURE_MEAN :: "real list" where
  "FEATURE_MEAN = [0.0, 0.0, 0.0, 0.0]"

definition FEATURE_STD :: "real list" where
  "FEATURE_STD = [1.0, 1.0, 1.0, 1.0]"

text \<open>
  The process-wide parameter arrays \<^verbatim>\<open>g_W1\<close>, \<^verbatim>\<open>g_b1\<close>, \<^verbatim>\<open>g_w2\<close>, \<^verbatim>\<open>g_b2\<close>,
  threaded through the functions that read or write them.
\<close>

record params =
  g_W1 :: "real list list"
  g_b1 :: "real list"
  g_w2 :: "real list"
  g_b2 :: real

definition init_params :: params where
  "init_params = \<lparr>
     g_W1 = [[ 0.10,  0.00,  0.00,  0.00],
             [ 0.00,  0.10,  0.00,  0.00],
             [ 0.00,  0.00,  0.10,  0.00],
             [ 0.00,  0.00,  0.00,  0.10],
             [-0.10,  0.00,  0.00,  0.00],
             [ 0.00, -0.10,  0.00,  0.00],
             [ 0.00,  0.00, -0.10,  0.00],
             [ 0.00,  0.00,  0.00, -0.10]],
     g_b1 = [0.0, 0.0, 0.0, 0.0, 0.0, 0.0, 0.0, 0.0],
     g_w2 = [0.05, 0.05, 0.05, 0.05, -0.05, -0.05, -0.05, -0.05],
     g_b2 = 0.0\<rparr>"

definition normalize_features :: "real list \<Rightarrow> real list" where
  "normalize_features x =
     foldl (\<lambda>x i. x[i := (x ! i - FEATURE_MEAN ! i) / FEATURE_STD ! i]) x [0..<INPUT_DIM]"

text \<open>
  The product of a float with itself, as \<^verbatim>\<open>augment\<close> stores it into a float: the exact
  product, or infinity when the product is too large for the type. The largest finite
  float is \<open>FLT_MAX\<close>, and a value rounds to infinity from half a step above it
  (a step is \<open>2\<^sup>1\<^sup>0\<^sup>4\<close> there).
\<close>

definition FLT_MAX :: real where
  "FLT_MAX = (2 ^ 24 - 1) * 2 ^ 104"

definition float_square :: "real \<Rightarrow> cfloat" where
  "float_square v = (if v * v < FLT_MAX + 2 ^ 103 then Finite (v * v) else Infinity)"

definition augment :: "real list \<Rightarrow> cfloat list" where
  "augment x =
     (if INPUT_DIM > 0 then (map Finite x)[INPUT_DIM - 1 := float_square (x ! (INPUT_DIM - 1))]
      else map Finite x)"

definition relu :: "real \<Rightarrow> real" where
  "relu z = (if z > 0.0 then z else 0.0)"

text \<open>
  \<^verbatim>\<open>forward_all\<close>: the pre-activation of hidden unit \<open>j\<close> is the inner loop over
  \<open>k\<close>; the arrays \<open>z1\<close> and \<open>a1\<close> are filled for \<open>j = 0, ..., HIDDEN_DIM - 1\<close>.
\<close>

definition hidden_z :: "params \<Rightarrow> Sample \<Rightarrow> nat \<Rightarrow> real" where
  "hidden_z P s j =
     foldl (\<lambda>z k. z + g_W1 P ! j ! k * s_x s ! k) (g_b1 P ! j) [0..<INPUT_DIM]"

definition forward_all :: "params \<Rightarrow> Sample \<Rightarrow> real list \<times> real list \<times> real" where
  "forward_all P s =
     (let z1 = map (hidden_z P s) [0..<HIDDEN_DIM];
          a1 = map relu z1;
          z2 = foldl (\<lambda>z2 j. z2 + g_w2 P ! j * a1 ! j) (g_b2 P) [0..<HIDDEN_DIM]
      in (z1, a1, z2))"

text \<open>
  \<^verbatim>\<open>backward_internal\<close> in its three phases: the gradients (by the chain rule, from
  the output back to the first layer), their norm, and the update of the parameter arrays
  in place. It returns the loss, the gradient norm and the updated parameters.
\<close>

record gradients =
  dL_dW1 :: "real list list"
  dL_db1 :: "real list"
  dL_dw2 :: "real list"
  dL_db2 :: real

definition compute_gradients :: "params \<Rightarrow> Sample \<Rightarrow> real \<Rightarrow> real list \<Rightarrow> real list \<Rightarrow> gradients" where
  "compute_gradients P s diff z1 a1 =
     (let dL_dz2 = diff;
          dw2 = map (\<lambda>j. dL_dz2 * a1 ! j) [0..<HIDDEN_DIM];
          db2 = dL_dz2;
          dL_dz1 = map (\<lambda>j. let dL_da1 = dL_dz2 * g_w2 P ! j
                              in if z1 ! j > 0.0 then dL_da1 else 0.0) [0..<HIDDEN_DIM];
          db1 = map (\<lambda>j. dL_dz1 ! j) [0..<HIDDEN_DIM];
          dW1 = map (\<lambda>j. map (\<lambda>k. dL_dz1 ! j * s_x s ! k) [0..<INPUT_DIM]) [0..<HIDDEN_DIM]
      in \<lparr>dL_dW1 = dW1, dL_db1 = db1, dL_dw2 = dw2, dL_db2 = db2\<rparr>)"

definition gradient_norm :: "gradients \<Rightarrow> real" where
  "gradient_norm G =
     (let norm_sq =
            foldl (\<lambda>n j.
              let n1 = foldl (\<lambda>n k. let g = dL_dW1 G ! j ! k in n + g * g) n [0..<INPUT_DIM];
                  gb1 = dL_db1 G ! j;
                  gw2 = dL_dw2 G ! j
              in n1 + gb1 * gb1 + gw2 * gw2) 0.0 [0..<HIDDEN_DIM]
            + dL_db2 G * dL_db2 G
      in sqrt norm_sq)"

definition update_row :: "gradients \<Rightarrow> params \<Rightarrow> nat \<Rightarrow> params" where
  "update_row G P j =
     (let P1 = foldl (\<lambda>P k.
                 P\<lparr>g_W1 := (g_W1 P)[j := (g_W1 P ! j)[k := g_W1 P ! j ! k - LEARNING_RATE * dL_dW1 G ! j ! k]]\<rparr>)
                 P [0..<INPUT_DIM];
          P2 = P1\<lparr>g_b1 := (g_b1 P1)[j := g_b1 P1 ! j - LEARNING_RATE * dL_db1 G ! j]\<rparr>
      in P2\<lparr>g_w2 := (g_w2 P2)[j := g_w2 P2 ! j - LEARNING_RATE * dL_dw2 G ! j]\<rparr>)"

definition sgd_update :: "gradients \<Rightarrow> params \<Rightarrow> params" where
  "sgd_update G P =
     (let P' = foldl (update_row G) P [0..<HIDDEN_DIM]
      in P'\<lparr>g_b2 := g_b2 P' - LEARNING_RATE * dL_db2 G\<rparr>)"

definition backward_internal ::
  "params \<Rightarrow> Sample \<Rightarrow> real \<Rightarrow> real list \<Rightarrow> real list \<Rightarrow> real \<times> real \<times> params" where
  "backward_internal P s y_hat z1 a1 =
     (let diff = y_hat - s_y s;
          loss_out = 0.5 * diff * diff;
          G = compute_gradients P s diff z1 a1;
          grad_norm_out = gradient_norm G
      in (loss_out, grad_norm_out, sgd_update G P))"

definition normalize_sample :: "Sample \<Rightarrow> Sample" where
  "normalize_sample s = s\<lparr>s_x := normalize_features (s_x s)\<rparr>"

definition augment_features :: "Sample \<Rightarrow> cfloat sample" where
  "augment_features s = \<lparr>s_x = augment (s_x s), s_y = Finite (s_y s), s_id = s_id s\<rparr>"

definition compute_forward :: "params \<Rightarrow> Sample \<Rightarrow> real" where
  "compute_forward P s = (case forward_all P s of (z1, a1, y_hat) \<Rightarrow> y_hat)"

definition compute_backward_and_update :: "params \<Rightarrow> Sample \<Rightarrow> real \<Rightarrow> real \<times> real \<times> params" where
  "compute_backward_and_update P s y_hat =
     (case forward_all P s of
        (z1, a1, y_hat_check) \<Rightarrow> backward_internal P s y_hat_check z1 a1)"

section \<open>preprocess.cpp, forward_layer.cpp\<close>

text \<open>
  A stage reads its input line by line (\<^verbatim>\<open>std::getline\<close>), so the input of a loop
  is the list of its lines. What a stage writes to the standard output and to the
  diagnostic output are two lists of lines, in the order written.
\<close>

record stage_out =
  out :: "string list"
  err :: "string list"

fun preprocess_loop :: "iolib \<Rightarrow> stage_out \<Rightarrow> string list \<Rightarrow> stage_out" where
  "preprocess_loop L io [] = io"
| "preprocess_loop L io (line # lines) =
     (if line = [] then preprocess_loop L io lines
      else
        (case parse_csv_line L line of
           None \<Rightarrow>
             preprocess_loop L (io\<lparr>err := err io @ [''preprocess: failed to parse line: '' @ line]\<rparr>) lines
         | Some s \<Rightarrow>
             preprocess_loop L
               (io\<lparr>out := out io @ [sample_to_line L (finite_sample (normalize_sample s))]\<rparr>) lines))"

text \<open>
  \<open>preprocess_run\<close>: the file at \<open>csv_path\<close> is \<open>None\<close> when it cannot be opened.
\<close>

definition preprocess_run :: "iolib \<Rightarrow> string \<Rightarrow> string list option \<Rightarrow> int \<times> stage_out" where
  "preprocess_run L csv_path file =
     (case file of
        None \<Rightarrow> (1, \<lparr>out = [], err = [''preprocess: failed to open CSV file: '' @ csv_path]\<rparr>)
      | Some lines \<Rightarrow> (0, preprocess_loop L \<lparr>out = [], err = []\<rparr> lines))"

fun forward_layer_loop :: "iolib \<Rightarrow> stage_out \<Rightarrow> string list \<Rightarrow> stage_out" where
  "forward_layer_loop L io [] = io"
| "forward_layer_loop L io (line # lines) =
     (if line = [] then forward_layer_loop L io lines
      else
        (case parse_sample_line L line of
           None \<Rightarrow>
             forward_layer_loop L (io\<lparr>err := err io @ [''forward_layer: failed to parse line: '' @ line]\<rparr>) lines
         | Some s \<Rightarrow>
             forward_layer_loop L (io\<lparr>out := out io @ [sample_to_line L (augment_features s)]\<rparr>) lines))"

definition forward_layer_run :: "iolib \<Rightarrow> string list \<Rightarrow> int \<times> stage_out" where
  "forward_layer_run L lines = (0, forward_layer_loop L \<lparr>out = [], err = []\<rparr> lines)"

section \<open>backward_layer.cpp\<close>

datatype Mode = Train | Test

text \<open>The value of an environment variable is \<open>None\<close> when the variable is unset.\<close>

definition get_mode :: "string option \<Rightarrow> Mode" where
  "get_mode env =
     (case env of
        None \<Rightarrow> Train
      | Some s \<Rightarrow> if s = [] then Train else if s = ''test'' \<or> s = ''TEST'' then Test else Train)"

definition get_model_path :: "string option \<Rightarrow> string" where
  "get_model_path env =
     (case env of
        Some s \<Rightarrow> if s \<noteq> [] then s else ''logs/model_params.txt''
      | None \<Rightarrow> ''logs/model_params.txt'')"

text \<open>
  The body of the loop of \<open>run_stream\<close> for a record that parsed: the prediction, the
  loss, and the parameters afterwards. (The gradient norm is computed and dropped, and
  the counter \<open>count\<close> of \<open>run_stream\<close> is written and never read.)
\<close>

definition run_stream_body :: "Mode \<Rightarrow> params \<Rightarrow> Sample \<Rightarrow> real \<times> real \<times> params" where
  "run_stream_body mode P s =
     (let y_hat = compute_forward P s
      in if mode = Train then
           (case compute_backward_and_update P s y_hat of
              (loss, grad_norm, P') \<Rightarrow> (loss, y_hat, P'))
         else
           (let diff = y_hat - s_y s;
                loss = 0.5 * diff * diff
            in (loss, y_hat, P)))"

definition result_line :: "iolib \<Rightarrow> int \<Rightarrow> real \<Rightarrow> real \<Rightarrow> string" where
  "result_line L i loss y_hat = put_int L i @ '' '' @ put_float L loss @ '' '' @ put_float L y_hat"

fun run_stream_loop :: "iolib \<Rightarrow> Mode \<Rightarrow> params \<times> stage_out \<Rightarrow> string list \<Rightarrow> params \<times> stage_out" where
  "run_stream_loop L mode (P, io) [] = (P, io)"
| "run_stream_loop L mode (P, io) (line # lines) =
     (if line = [] then run_stream_loop L mode (P, io) lines
      else
        (case parse_sample_line L line of
           None \<Rightarrow>
             run_stream_loop L mode
               (P, io\<lparr>err := err io @ [''backward_layer: failed to parse line: '' @ line]\<rparr>) lines
         | Some s \<Rightarrow>
             (case run_stream_body mode P s of
                (loss, y_hat, P') \<Rightarrow>
                  run_stream_loop L mode
                    (P', io\<lparr>out := out io @ [result_line L (s_id s) loss y_hat]\<rparr>) lines)))"

definition run_stream :: "iolib \<Rightarrow> Mode \<Rightarrow> params \<Rightarrow> string list \<Rightarrow> int \<times> params \<times> stage_out" where
  "run_stream L mode P lines =
     (case run_stream_loop L mode (P, \<lparr>out = [], err = []\<rparr>) lines of (P', io) \<Rightarrow> (0, P', io))"

section \<open>The parameter file (math_layer.cpp)\<close>

definition newline :: char where
  "newline = CHR 0x0A"

text \<open>
  An input file stream is the text still unread, or has failed; once it has failed, every
  further extraction leaves both the stream and its target alone. \<open>extract_into get st v\<close> is
  \<^verbatim>\<open>st >> v\<close>, returning the stream and the value of the target afterwards.
\<close>

datatype ifstream = Good string | Failed

fun extract_into :: "(string \<Rightarrow> 'a extraction) \<Rightarrow> ifstream \<Rightarrow> 'a \<Rightarrow> ifstream \<times> 'a" where
  "extract_into get Failed v = (Failed, v)"
| "extract_into get (Good ss) v =
     (case get ss of
        Extracted w ss' \<Rightarrow> (Good ss', w)
      | Failure None \<Rightarrow> (Failed, v)
      | Failure (Some w) \<Rightarrow> (Failed, w))"

text \<open>
  \<open>load_parameters\<close>: the file at \<open>path\<close> is \<open>None\<close> when it cannot be opened. The
  extractions write straight into the parameter arrays.
\<close>

definition load_W1 :: "iolib \<Rightarrow> ifstream \<times> params \<Rightarrow> ifstream \<times> params" where
  "load_W1 L =
     (\<lambda>start. foldl (\<lambda>acc j.
        foldl (\<lambda>(ifs, P) k.
          (case extract_into (get_float L) ifs (g_W1 P ! j ! k) of
             (ifs', v) \<Rightarrow> (ifs', P\<lparr>g_W1 := (g_W1 P)[j := (g_W1 P ! j)[k := v]]\<rparr>)))
          acc [0..<INPUT_DIM])
        start [0..<HIDDEN_DIM])"

definition load_b1 :: "iolib \<Rightarrow> ifstream \<times> params \<Rightarrow> ifstream \<times> params" where
  "load_b1 L =
     (\<lambda>start. foldl (\<lambda>(ifs, P) j.
        (case extract_into (get_float L) ifs (g_b1 P ! j) of
           (ifs', v) \<Rightarrow> (ifs', P\<lparr>g_b1 := (g_b1 P)[j := v]\<rparr>)))
        start [0..<HIDDEN_DIM])"

definition load_w2 :: "iolib \<Rightarrow> ifstream \<times> params \<Rightarrow> ifstream \<times> params" where
  "load_w2 L =
     (\<lambda>start. foldl (\<lambda>(ifs, P) j.
        (case extract_into (get_float L) ifs (g_w2 P ! j) of
           (ifs', v) \<Rightarrow> (ifs', P\<lparr>g_w2 := (g_w2 P)[j := v]\<rparr>)))
        start [0..<HIDDEN_DIM])"

definition load_b2 :: "iolib \<Rightarrow> ifstream \<times> params \<Rightarrow> ifstream \<times> params" where
  "load_b2 L =
     (\<lambda>(ifs, P). case extract_into (get_float L) ifs (g_b2 P) of (ifs', v) \<Rightarrow> (ifs', P\<lparr>g_b2 := v\<rparr>))"

definition load_parameters :: "iolib \<Rightarrow> string option \<Rightarrow> params \<Rightarrow> bool \<times> params" where
  "load_parameters L file P =
     (case file of
        None \<Rightarrow> (False, P)
      | Some content \<Rightarrow>
          (case extract_into (get_size_t L) (Good content) 0 of
             (ifs1, hidden_dim) \<Rightarrow>
               (case extract_into (get_size_t L) ifs1 0 of
                  (ifs2, input_dim) \<Rightarrow>
                    if ifs2 = Failed \<or> hidden_dim \<noteq> HIDDEN_DIM \<or> input_dim \<noteq> INPUT_DIM
                    then (False, P)
                    else
                      (case load_b2 L (load_w2 L (load_b1 L (load_W1 L (ifs2, P)))) of
                         (ifs, P') \<Rightarrow> (ifs \<noteq> Failed, P')))))"

text \<open>
  An output file stream has a buffer. The characters inserted are collected there, and
  they are written to the file when an insertion does not fit the buffer any more
  (the buffered characters and the insertion are then written together) and when the
  stream is closed. \<open>os_file\<close> is what has reached the file so far, \<open>os_buffer\<close> what
  is waiting. The device takes \<open>room\<close> characters: a write that does not fit puts the
  characters that fit into the file and leaves the stream in a failed state, in which
  insertions do nothing. The size of the buffer is the library's choice.
\<close>

record ofstream =
  os_file :: string
  os_buffer :: string
  os_good :: bool

definition os_write :: "nat \<Rightarrow> string \<Rightarrow> ofstream \<Rightarrow> ofstream" where
  "os_write room s ofs =
     (let n = room - length (os_file ofs)
      in if length s \<le> n then ofs\<lparr>os_file := os_file ofs @ s\<rparr>
         else ofs\<lparr>os_file := os_file ofs @ take n s, os_good := False\<rparr>)"

definition os_put :: "nat \<Rightarrow> nat \<Rightarrow> string \<Rightarrow> ofstream \<Rightarrow> ofstream" where
  "os_put bufsize room s ofs =
     (if \<not> os_good ofs then ofs
      else if length (os_buffer ofs) + length s \<le> bufsize
      then ofs\<lparr>os_buffer := os_buffer ofs @ s\<rparr>
      else os_write room (os_buffer ofs @ s) (ofs\<lparr>os_buffer := []\<rparr>))"

text \<open>The destructor of the stream writes what is waiting; it reports no failure.\<close>

definition os_close :: "nat \<Rightarrow> ofstream \<Rightarrow> string" where
  "os_close room ofs = os_file (os_write room (os_buffer ofs) ofs)"

text \<open>
  \<open>save_parameters\<close>: \<open>openable\<close> says whether the path can be opened for writing, and
  \<open>file\<close> is the content at the path before the call (\<open>None\<close>: no file). Opening the
  stream creates the file or truncates it. The flag returned is the state of the stream
  after the last insertion; the stream is closed after that, when the function is left.
  The result is the returned flag and the file afterwards.
\<close>

definition save_W1 :: "iolib \<Rightarrow> nat \<Rightarrow> nat \<Rightarrow> params \<Rightarrow> ofstream \<Rightarrow> ofstream" where
  "save_W1 L bufsize room P =
     (\<lambda>start. foldl (\<lambda>ofs j.
        os_put bufsize room [newline]
          (foldl (\<lambda>ofs k. os_put bufsize room '' ''
                    (os_put bufsize room (put_float L (g_W1 P ! j ! k)) ofs))
             ofs [0..<INPUT_DIM]))
        start [0..<HIDDEN_DIM])"

definition save_vector :: "iolib \<Rightarrow> nat \<Rightarrow> nat \<Rightarrow> real list \<Rightarrow> ofstream \<Rightarrow> ofstream" where
  "save_vector L bufsize room v =
     (\<lambda>start. os_put bufsize room [newline]
        (foldl (\<lambda>ofs j. os_put bufsize room '' '' (os_put bufsize room (put_float L (v ! j)) ofs))
           start [0..<HIDDEN_DIM]))"

definition save_parameters ::
  "iolib \<Rightarrow> nat \<Rightarrow> bool \<Rightarrow> nat \<Rightarrow> string option \<Rightarrow> params \<Rightarrow> bool \<times> string option" where
  "save_parameters L bufsize openable room file P =
     (if \<not> openable then (False, file)
      else
        (let ofs0 = \<lparr>os_file = [], os_buffer = [], os_good = True\<rparr>;
             ofs1 = os_put bufsize room [newline] (os_put bufsize room (put_size_t L INPUT_DIM)
                      (os_put bufsize room '' '' (os_put bufsize room (put_size_t L HIDDEN_DIM) ofs0)));
             ofs2 = save_W1 L bufsize room P ofs1;
             ofs3 = save_vector L bufsize room (g_b1 P) ofs2;
             ofs4 = save_vector L bufsize room (g_w2 P) ofs3;
             ofs5 = os_put bufsize room [newline] (os_put bufsize room (put_float L (g_b2 P)) ofs4)
         in (os_good ofs5, Some (os_close room ofs5))))"

text \<open>
  \<open>backward_layer::run\<close>. The environment of the process: the two variables, the files
  by path, which paths can be opened for writing, the room on the device and the size of
  the buffer of an output file stream. The result is the exit code, the parameters at the
  end, what was written to the two outputs, and the files afterwards.
\<close>

record learner_env =
  BACKWARD_MODE :: "string option"
  MODEL_FILE :: "string option"
  files :: "string \<Rightarrow> string option"
  writable :: "string \<Rightarrow> bool"
  device_room :: nat
  stream_buffer :: nat

definition backward_layer_run ::
  "iolib \<Rightarrow> learner_env \<Rightarrow> params \<Rightarrow> string list
     \<Rightarrow> int \<times> params \<times> stage_out \<times> (string \<Rightarrow> string option)" where
  "backward_layer_run L env P0 lines =
     (let mode = get_mode (BACKWARD_MODE env);
          model_path = get_model_path (MODEL_FILE env);
          (P1, err1) =
            (if mode = Test then
               (case load_parameters L (files env model_path) P0 of
                  (ok, P) \<Rightarrow>
                    if \<not> ok
                    then (P, [''backward_layer: no model file at '' @ model_path @ '', using initial parameters''])
                    else (P, [''backward_layer: loaded parameters from '' @ model_path]))
             else (P0, []))
      in case run_stream L mode P1 lines of
           (rc, P2, io) \<Rightarrow>
             (let (fs, err2) =
                    (if mode = Train then
                       (case save_parameters L (stream_buffer env) (writable env model_path) (device_room env)
                               (files env model_path) P2 of
                          (ok, file') \<Rightarrow>
                            ((files env)(model_path := file'),
                             if \<not> ok
                             then [''backward_layer: failed to save parameters to '' @ model_path]
                             else [''backward_layer: saved parameters to '' @ model_path]))
                     else (files env, []))
              in (rc, P2, \<lparr>out = out io, err = err1 @ err io @ err2\<rparr>, fs)))"

section \<open>logger.cpp\<close>

text \<open>
  The two signal handlers only set a flag. The loop looks at the flags at fixed points of
  an iteration, so the signals are modelled per iteration: each line read comes with two
  booleans telling whether SIGUSR1 and SIGTERM were delivered since the loop last looked.
\<close>

record logger_state =
  lg_count :: "64 word"
  total_loss :: real
  total_yhat :: real
  g_dump_requested :: bool
  g_terminate_requested :: bool
  lg_out :: "string list"
  lg_err :: "string list"

type_synonym logger_event = "string \<times> bool \<times> bool"

definition deliver :: "bool \<Rightarrow> bool \<Rightarrow> logger_state \<Rightarrow> logger_state" where
  "deliver usr1 sigterm st =
     st\<lparr>g_dump_requested := g_dump_requested st \<or> usr1,
        g_terminate_requested := g_terminate_requested st \<or> sigterm\<rparr>"

text \<open>\<^verbatim>\<open>ss >> id >> loss >> y_hat\<close>\<close>

definition parse_result_line :: "iolib \<Rightarrow> string \<Rightarrow> (int \<times> real \<times> real) option" where
  "parse_result_line L line =
     (case get_int L line of
        Failure _ \<Rightarrow> None
      | Extracted i ss1 \<Rightarrow>
          (case get_float L ss1 of
             Failure _ \<Rightarrow> None
           | Extracted loss ss2 \<Rightarrow>
               (case get_float L ss2 of
                  Failure _ \<Rightarrow> None
                | Extracted y_hat _ \<Rightarrow> Some (i, loss, y_hat))))"

definition average :: "real \<Rightarrow> 64 word \<Rightarrow> real" where
  "average t n = t / real (unat n)"

text \<open>The three kinds of line the logger prints.\<close>

definition sample_line :: "iolib \<Rightarrow> int \<Rightarrow> real \<Rightarrow> real \<Rightarrow> string" where
  "sample_line L i loss y_hat =
     ''SAMPLE '' @ put_int L i @ '' LOSS '' @ put_float L loss @ '' YHAT '' @ put_float L y_hat"

definition snapshot_line :: "iolib \<Rightarrow> 64 word \<Rightarrow> real \<Rightarrow> real \<Rightarrow> string" where
  "snapshot_line L n avg_loss avg_yhat =
     ''[LOGGER SNAPSHOT] samples='' @ put_size_t L (unat n)
     @ '' avg_loss='' @ put_double L avg_loss @ '' avg_yhat='' @ put_double L avg_yhat"

definition summary_line :: "iolib \<Rightarrow> 64 word \<Rightarrow> real \<Rightarrow> real \<Rightarrow> string" where
  "summary_line L n avg_loss avg_yhat =
     ''SUMMARY '' @ put_size_t L (unat n) @ '' '' @ put_double L avg_loss @ '' '' @ put_double L avg_yhat"

text \<open>The statistics and the echo line for a record that parsed.\<close>

definition account :: "iolib \<Rightarrow> int \<times> real \<times> real \<Rightarrow> logger_state \<Rightarrow> logger_state" where
  "account L = (\<lambda>(i, loss, y_hat) st.
     st\<lparr>lg_count := lg_count st + 1,
        total_loss := total_loss st + loss,
        total_yhat := total_yhat st + y_hat,
        lg_out := lg_out st @ [sample_line L i loss y_hat]\<rparr>)"

text \<open>The block \<^verbatim>\<open>if (g_dump_requested.load()) { ... }\<close> of the loop.\<close>

definition snapshot :: "iolib \<Rightarrow> logger_state \<Rightarrow> logger_state" where
  "snapshot L st =
     (if g_dump_requested st then
        (let st1 = st\<lparr>g_dump_requested := False\<rparr>
         in if lg_count st1 > 0 then
              (let avg_loss = average (total_loss st1) (lg_count st1);
                   avg_yhat = average (total_yhat st1) (lg_count st1)
               in st1\<lparr>lg_err := lg_err st1 @ [snapshot_line L (lg_count st1) avg_loss avg_yhat]\<rparr>)
            else st1)
      else st)"

fun logger_loop :: "iolib \<Rightarrow> logger_state \<Rightarrow> logger_event list \<Rightarrow> logger_state" where
  "logger_loop L st [] = st"
| "logger_loop L st ((line, usr1, sigterm) # evs) =
     (let st0 = deliver usr1 sigterm st
      in if line = [] then
           (if g_terminate_requested st0 then st0 else logger_loop L st0 evs)
         else
           (case parse_result_line L line of
              None \<Rightarrow>
                logger_loop L (st0\<lparr>lg_err := lg_err st0 @ [''logger: failed to parse line: '' @ line]\<rparr>) evs
            | Some r \<Rightarrow>
                (let st1 = snapshot L (account L r st0)
                 in if g_terminate_requested st1 then st1 else logger_loop L st1 evs)))"

definition final_summary :: "iolib \<Rightarrow> logger_state \<Rightarrow> logger_state" where
  "final_summary L st =
     (if lg_count st > 0 then
        (let avg_loss = average (total_loss st) (lg_count st);
             avg_yhat = average (total_yhat st) (lg_count st)
         in st\<lparr>lg_out := lg_out st @ [summary_line L (lg_count st) avg_loss avg_yhat]\<rparr>)
      else st\<lparr>lg_err := lg_err st @ [''[LOGGER FINAL] no samples processed'']\<rparr>)"

definition logger_init :: logger_state where
  "logger_init = \<lparr>lg_count = 0, total_loss = 0.0, total_yhat = 0.0,
     g_dump_requested = False, g_terminate_requested = False, lg_out = [], lg_err = []\<rparr>"

definition logger_run :: "iolib \<Rightarrow> logger_event list \<Rightarrow> int \<times> logger_state" where
  "logger_run L evs = (0, final_summary L (logger_loop L logger_init evs))"

section \<open>trainer.cpp\<close>

text \<open>
  What the operating system answers the orchestrator: whether each \<^verbatim>\<open>pipe\<close> call
  succeeds, what each \<^verbatim>\<open>fork\<close> returns in the parent (negative: failure), and the
  children that the successive \<^verbatim>\<open>wait\<close> calls report, with their status, until no
  child is left. A status is an exit code, a terminating signal, or neither.
\<close>

datatype wstatus = Exited int | Signaled int | Neither

record trainer_env =
  pipe_pre_to_fwd :: bool
  pipe_fwd_to_bwd :: bool
  pipe_bwd_to_log :: bool
  fork_pre :: int
  fork_fwd :: int
  fork_bwd :: int
  fork_log :: int
  reaped :: "(int \<times> wstatus) list"

text \<open>
  \<open>spawn_child\<close> as the parent sees it: the child's pid, or -1 with a diagnostic. Of a
  line that \<^verbatim>\<open>perror\<close> prints, the log keeps the prefix the program passes; the
  system's description of the error that follows it is left out.
\<close>

definition spawn_child :: "int \<Rightarrow> int \<times> string list" where
  "spawn_child pid = (if pid < 0 then (-1, [''fork'']) else (pid, []))"

fun wait_loop :: "iolib \<Rightarrow> string list \<Rightarrow> (int \<times> wstatus) list \<Rightarrow> string list" where
  "wait_loop L lg [] = lg"
| "wait_loop L lg ((wpid, Exited code) # rest) =
     wait_loop L (lg @ [''trainer: child '' @ put_int L wpid @ '' exited with status '' @ put_int L code]) rest"
| "wait_loop L lg ((wpid, Signaled sig) # rest) =
     wait_loop L (lg @ [''trainer: child '' @ put_int L wpid @ '' terminated by signal '' @ put_int L sig]) rest"
| "wait_loop L lg ((wpid, Neither) # rest) = wait_loop L lg rest"

definition trainer_run :: "iolib \<Rightarrow> trainer_env \<Rightarrow> int \<times> string list" where
  "trainer_run L env =
     (if \<not> pipe_pre_to_fwd env then (1, [''pipe pre->fwd''])
      else if \<not> pipe_fwd_to_bwd env then (1, [''pipe fwd->bwd''])
      else if \<not> pipe_bwd_to_log env then (1, [''pipe bwd->log''])
      else
        (case spawn_child (fork_pre env) of (pre_pid, e1) \<Rightarrow>
           if pre_pid < 0 then (1, e1)
           else (case spawn_child (fork_fwd env) of (fwd_pid, e2) \<Rightarrow>
             if fwd_pid < 0 then (1, e1 @ e2)
             else (case spawn_child (fork_bwd env) of (bwd_pid, e3) \<Rightarrow>
               if bwd_pid < 0 then (1, e1 @ e2 @ e3)
               else (case spawn_child (fork_log env) of (log_pid, e4) \<Rightarrow>
                 if log_pid < 0 then (1, e1 @ e2 @ e3 @ e4)
                 else (0, wait_loop L (e1 @ e2 @ e3 @ e4) (reaped env)))))))"

section \<open>A decimal instance of the stream library\<close>

text \<open>
  For the examples, one instance of the library: extraction skips white space, reads an
  optional sign and decimal digits (with a fraction after a point for a \<^verbatim>\<open>float\<close>; no
  exponents), and fails on anything else or at the end of the text; insertion prints
  decimal digits, a \<^verbatim>\<open>float\<close> in fixed notation with six digits after the point.
\<close>

definition isspace :: "char \<Rightarrow> bool" where
  "isspace c = (c \<in> set [CHR '' '', CHR 0x09, CHR 0x0A, CHR 0x0B, CHR 0x0C, CHR 0x0D])"

definition isdigit :: "char \<Rightarrow> bool" where
  "isdigit c = (c \<in> set ''0123456789'')"

definition digit_value :: "char \<Rightarrow> nat" where
  "digit_value c = of_char c - 48"

definition digit_char :: "nat \<Rightarrow> char" where
  "digit_char d = ''0123456789'' ! d"

fun dec_digits :: "nat \<Rightarrow> string" where
  "dec_digits n = (if n < 10 then [digit_char n] else dec_digits (n div 10) @ [digit_char (n mod 10)])"

definition dec_value :: "string \<Rightarrow> nat" where
  "dec_value ds = foldl (\<lambda>a c. 10 * a + digit_value c) 0 ds"

definition skip_sign :: "string \<Rightarrow> bool \<times> string" where
  "skip_sign ss =
     (case ss of
        [] \<Rightarrow> (False, ss)
      | c # t \<Rightarrow> if c = CHR ''-'' then (True, t) else if c = CHR ''+'' then (False, t) else (False, ss))"

definition dec_get_size_t :: "string \<Rightarrow> nat extraction" where
  "dec_get_size_t ss =
     (let s1 = dropWhile isspace ss;
          ds = takeWhile isdigit s1
      in if ds = [] then Failure (if s1 = [] then None else Some 0)
         else if dec_value ds < 2 ^ 64 then Extracted (dec_value ds) (dropWhile isdigit s1)
         else Failure (Some (2 ^ 64 - 1)))"

definition dec_get_int :: "string \<Rightarrow> int extraction" where
  "dec_get_int ss =
     (let s1 = dropWhile isspace ss;
          (neg, s2) = skip_sign s1;
          ds = takeWhile isdigit s2;
          v = (if neg then - int (dec_value ds) else int (dec_value ds))
      in if ds = [] then Failure (if s1 = [] then None else Some 0)
         else if v < - (2 ^ 31) then Failure (Some (- (2 ^ 31)))
         else if 2 ^ 31 \<le> v then Failure (Some (2 ^ 31 - 1))
         else Extracted v (dropWhile isdigit s2))"

definition dec_get_float :: "string \<Rightarrow> real extraction" where
  "dec_get_float ss =
     (let s1 = dropWhile isspace ss;
          (neg, s2) = skip_sign s1;
          ip = takeWhile isdigit s2;
          s3 = dropWhile isdigit s2;
          (fp, s4) = (case s3 of
                        [] \<Rightarrow> ([], s3)
                      | c # t \<Rightarrow> if c = CHR ''.'' then (takeWhile isdigit t, dropWhile isdigit t)
                                 else ([], s3));
          v = real (dec_value ip) + real (dec_value fp) / 10 ^ length fp
      in if ip = [] \<and> fp = [] then Failure (if s1 = [] then None else Some 0)
         else Extracted (if neg then - v else v) s4)"

definition dec_get_char :: "string \<Rightarrow> char extraction" where
  "dec_get_char ss =
     (case dropWhile isspace ss of
        [] \<Rightarrow> Failure None
      | c # t \<Rightarrow> Extracted c t)"

definition dec_put_int :: "int \<Rightarrow> string" where
  "dec_put_int i = (if i < 0 then CHR ''-'' # dec_digits (nat (- i)) else dec_digits (nat i))"

definition dec_put_float :: "real \<Rightarrow> string" where
  "dec_put_float v =
     (let a = \<bar>v\<bar>;
          ip = nat \<lfloor>a\<rfloor>;
          fp = nat \<lfloor>(a - real ip) * 10 ^ 6\<rfloor>;
          fd = dec_digits fp
      in (if v < 0 then ''-'' else '''') @ dec_digits ip @ ''.''
         @ replicate (6 - length fd) (CHR ''0'') @ fd)"

definition decimal_lib :: iolib where
  "decimal_lib = \<lparr>get_int = dec_get_int, get_size_t = dec_get_size_t, get_float = dec_get_float,
     get_char = dec_get_char, put_int = dec_put_int, put_size_t = dec_digits,
     put_float = dec_put_float, put_double = dec_put_float\<rparr>"


section \<open>Notions used to state the properties\<close>

text \<open>
  The records a stage accepts from its input, in arrival order: the non-empty lines that
  \<open>parse_sample_line\<close> parses.
\<close>

definition parsed_samples :: "iolib \<Rightarrow> string list \<Rightarrow> Sample list" where
  "parsed_samples L lines = List.map_filter (parse_sample_line L) (filter (\<lambda>line. line \<noteq> []) lines)"

text \<open>
  The records the logger processes: those of the lines it reads until the loop stops. A
  stop request is honoured at the next empty line or after the next record that parses,
  and \<open>stop\<close> tells whether one is already pending.
\<close>

fun processed :: "iolib \<Rightarrow> bool \<Rightarrow> logger_event list \<Rightarrow> (int \<times> real \<times> real) list" where
  "processed L stop [] = []"
| "processed L stop ((line, usr1, sigterm) # evs) =
     (if line = [] then (if stop \<or> sigterm then [] else processed L (stop \<or> sigterm) evs)
      else
        (case parse_result_line L line of
           None \<Rightarrow> processed L (stop \<or> sigterm) evs
         | Some r \<Rightarrow> r # (if stop \<or> sigterm then [] else processed L (stop \<or> sigterm) evs)))"

text \<open>
  Iterations of the logger's loop that process no record and do not stop it: the line is
  empty or does not parse, and no stop request comes with it. Whether a snapshot request
  is raised during such iterations, and the diagnostics they print.
\<close>

definition no_record :: "iolib \<Rightarrow> logger_event \<Rightarrow> bool" where
  "no_record L = (\<lambda>(line, usr1, sigterm). (line = [] \<or> parse_result_line L line = None) \<and> \<not> sigterm)"

definition requested :: "logger_event list \<Rightarrow> bool" where
  "requested evs = list_ex (\<lambda>(line, usr1, sigterm). usr1) evs"

definition parse_failures :: "logger_event list \<Rightarrow> string list" where
  "parse_failures evs =
     map (\<lambda>line. ''logger: failed to parse line: '' @ line) (filter (\<lambda>line. line \<noteq> []) (map fst evs))"

text \<open>A line of the normal output that is a summary line.\<close>

definition is_summary :: "string \<Rightarrow> bool" where
  "is_summary line = (take 8 line = ''SUMMARY '')"

text \<open>A run of the logger's input, with a snapshot request and a stop request.\<close>

definition events_example :: "logger_event list" where
  "events_example =
     [(''1 0.5 0.25'', False, False), ([], False, False), (''junk'', True, False),
      (''2 1.5 0.75'', False, True), (''3 9 9'', False, False)]"

text \<open>
  The orchestrator got all it asked of the operating system: three pipes and four
  children.
\<close>

definition setup_ok :: "trainer_env \<Rightarrow> bool" where
  "setup_ok env \<longleftrightarrow>
     pipe_pre_to_fwd env \<and> pipe_fwd_to_bwd env \<and> pipe_bwd_to_log env
     \<and> 0 \<le> fork_pre env \<and> 0 \<le> fork_fwd env \<and> 0 \<le> fork_bwd env \<and> 0 \<le> fork_log env"

text \<open>The diagnostic line for one reaped child.\<close>

fun child_log :: "iolib \<Rightarrow> int \<times> wstatus \<Rightarrow> string list" where
  "child_log L (wpid, Exited code) =
     [''trainer: child '' @ put_int L wpid @ '' exited with status '' @ put_int L code]"
| "child_log L (wpid, Signaled sig) =
     [''trainer: child '' @ put_int L wpid @ '' terminated by signal '' @ put_int L sig]"
| "child_log L (wpid, Neither) = []"

text \<open>
  An environment in which everything is created, with the statuses of the learner and of
  the logger left open.
\<close>

definition env_example :: "wstatus \<Rightarrow> wstatus \<Rightarrow> trainer_env" where
  "env_example bwd_status log_status =
     \<lparr>pipe_pre_to_fwd = True, pipe_fwd_to_bwd = True, pipe_bwd_to_log = True,
      fork_pre = 101, fork_fwd = 102, fork_bwd = 103, fork_log = 104,
      reaped = [(101, Exited 0), (102, Exited 0), (103, bwd_status), (104, log_status)]\<rparr>"

text \<open>
  The header of a parameter file reads as the two dimensions of the running topology.
  A file is bad when it cannot be opened or its header does not read so.
\<close>

definition header_matches :: "iolib \<Rightarrow> string \<Rightarrow> bool" where
  "header_matches L content =
     (case get_size_t L content of
        Failure _ \<Rightarrow> False
      | Extracted h ss \<Rightarrow>
          (case get_size_t L ss of
             Failure _ \<Rightarrow> False
           | Extracted i _ \<Rightarrow> h = HIDDEN_DIM \<and> i = INPUT_DIM))"

definition bad_parameter_file :: "iolib \<Rightarrow> string option \<Rightarrow> bool" where
  "bad_parameter_file L file =
     (case file of None \<Rightarrow> True | Some content \<Rightarrow> \<not> header_matches L content)"

text \<open>A learner in test mode whose parameter file has the dimensions swapped.\<close>

definition learner_env_example :: learner_env where
  "learner_env_example =
     \<lparr>BACKWARD_MODE = Some ''test'', MODEL_FILE = None,
      files = (\<lambda>path. if path = ''logs/model_params.txt'' then Some ''4 8 1 2'' else None),
      writable = (\<lambda>path. True), device_room = 4096, stream_buffer = 8192\<rparr>"

text \<open>
  The insertions of \<open>save_parameters\<close> in the order it makes them, and the text of a
  complete parameter file: all of them, one after the other.
\<close>

definition insertions :: "iolib \<Rightarrow> params \<Rightarrow> string list" where
  "insertions L P =
     [put_size_t L HIDDEN_DIM, '' '', put_size_t L INPUT_DIM, [newline]]
     @ concat (map (\<lambda>j. concat (map (\<lambda>k. [put_float L (g_W1 P ! j ! k), '' '']) [0..<INPUT_DIM])
                          @ [[newline]]) [0..<HIDDEN_DIM])
     @ concat (map (\<lambda>j. [put_float L (g_b1 P ! j), '' '']) [0..<HIDDEN_DIM]) @ [[newline]]
     @ concat (map (\<lambda>j. [put_float L (g_w2 P ! j), '' '']) [0..<HIDDEN_DIM]) @ [[newline]]
     @ [put_float L (g_b2 P), [newline]]"

definition parameter_text :: "iolib \<Rightarrow> params \<Rightarrow> string" where
  "parameter_text L P = concat (insertions L P)"

text \<open>
  Parameter arrays of the sizes the C++ types fix: eight rows of four input weights,
  eight hidden biases, eight output weights.
\<close>

definition wf_params :: "params \<Rightarrow> bool" where
  "wf_params P \<longleftrightarrow>
     length (g_W1 P) = HIDDEN_DIM \<and> list_all (\<lambda>row. length row = INPUT_DIM) (g_W1 P)
     \<and> length (g_b1 P) = HIDDEN_DIM \<and> length (g_w2 P) = HIDDEN_DIM"

text \<open>The loss of a record under given parameters.\<close>

definition mse_loss :: "params \<Rightarrow> Sample \<Rightarrow> real" where
  "mse_loss P s = 0.5 * (compute_forward P s - s_y s)\<^sup>2"

text \<open>
  The derivatives that reverse-mode differentiation gives through the two layers, from
  the output bias back to the input weights, with 0 for the derivative of the ReLU at and
  below 0; and the step that moves every parameter against them at the learning rate.
\<close>

definition grad_b2 :: "params \<Rightarrow> Sample \<Rightarrow> real" where
  "grad_b2 P s = compute_forward P s - s_y s"

definition grad_w2 :: "params \<Rightarrow> Sample \<Rightarrow> nat \<Rightarrow> real" where
  "grad_w2 P s j = (compute_forward P s - s_y s) * relu (hidden_z P s j)"

definition grad_b1 :: "params \<Rightarrow> Sample \<Rightarrow> nat \<Rightarrow> real" where
  "grad_b1 P s j = (if hidden_z P s j > 0 then (compute_forward P s - s_y s) * g_w2 P ! j else 0)"

definition grad_W1 :: "params \<Rightarrow> Sample \<Rightarrow> nat \<Rightarrow> nat \<Rightarrow> real" where
  "grad_W1 P s j k = grad_b1 P s j * s_x s ! k"

definition gd_step :: "params \<Rightarrow> Sample \<Rightarrow> params" where
  "gd_step P s =
     \<lparr>g_W1 = map (\<lambda>j. map (\<lambda>k. g_W1 P ! j ! k - LEARNING_RATE * grad_W1 P s j k) [0..<INPUT_DIM]) [0..<HIDDEN_DIM],
      g_b1 = map (\<lambda>j. g_b1 P ! j - LEARNING_RATE * grad_b1 P s j) [0..<HIDDEN_DIM],
      g_w2 = map (\<lambda>j. g_w2 P ! j - LEARNING_RATE * grad_w2 P s j) [0..<HIDDEN_DIM],
      g_b2 = g_b2 P - LEARNING_RATE * grad_b2 P s\<rparr>"

text \<open>What the learner prints in train mode, record by record.\<close>

fun train_lines :: "iolib \<Rightarrow> params \<Rightarrow> Sample list \<Rightarrow> string list" where
  "train_lines L P [] = []"
| "train_lines L P (s # ss) =
     result_line L (s_id s) (0.5 * (compute_forward P s - s_y s)\<^sup>2) (compute_forward P s)
     # train_lines L (gd_step P s) ss"

text \<open>
  No hidden unit sits on the kink of its ReLU: the loss is differentiable in every
  parameter.
\<close>

definition smooth :: "params \<Rightarrow> Sample \<Rightarrow> bool" where
  "smooth P s \<longleftrightarrow> list_all (\<lambda>j. hidden_z P s j \<noteq> 0) [0..<HIDDEN_DIM]"

text \<open>
  A gradient-descent step in the words of the specification: every parameter changes by
  the learning rate times the partial derivative of the loss of the record with respect
  to that parameter, all other parameters and the record held fixed.
\<close>

definition gradient_step :: "params \<Rightarrow> Sample \<Rightarrow> params \<Rightarrow> bool" where
  "gradient_step P s P' \<longleftrightarrow>
     (\<forall>j<HIDDEN_DIM. \<forall>k<INPUT_DIM. \<exists>D.
        ((\<lambda>t. mse_loss (P\<lparr>g_W1 := (g_W1 P)[j := (g_W1 P ! j)[k := t]]\<rparr>) s) has_real_derivative D)
          (at (g_W1 P ! j ! k))
        \<and> g_W1 P' ! j ! k = g_W1 P ! j ! k - LEARNING_RATE * D)
   \<and> (\<forall>j<HIDDEN_DIM. \<exists>D.
        ((\<lambda>t. mse_loss (P\<lparr>g_b1 := (g_b1 P)[j := t]\<rparr>) s) has_real_derivative D) (at (g_b1 P ! j))
        \<and> g_b1 P' ! j = g_b1 P ! j - LEARNING_RATE * D)
   \<and> (\<forall>j<HIDDEN_DIM. \<exists>D.
        ((\<lambda>t. mse_loss (P\<lparr>g_w2 := (g_w2 P)[j := t]\<rparr>) s) has_real_derivative D) (at (g_w2 P ! j))
        \<and> g_w2 P' ! j = g_w2 P ! j - LEARNING_RATE * D)
   \<and> (\<exists>D.
        ((\<lambda>t. mse_loss (P\<lparr>g_b2 := t\<rparr>) s) has_real_derivative D) (at (g_b2 P))
        \<and> g_b2 P' = g_b2 P - LEARNING_RATE * D)"

text \<open>A record with no hidden unit on a kink under the initial parameters.\<close>

definition sample_7 :: Sample where
  "sample_7 = \<lparr>s_x = [1, 2, 3, 4], s_y = 2, s_id = 7\<rparr>"

text \<open>
  The records the first stage accepts from the dataset, in order: the non-empty lines
  that \<open>parse_csv_line\<close> parses.
\<close>

definition csv_samples :: "iolib \<Rightarrow> string list \<Rightarrow> Sample list" where
  "csv_samples L lines = List.map_filter (parse_csv_line L) (filter (\<lambda>line. line \<noteq> []) lines)"



text \<open>
  What each stage writes to its standard output. A pipe hands the lines written to it to
  the next stage, in the order written. The logger is the last stage: its standard
  output is the output of the pipeline. The signals that reach the logger are given by
  the number of the line it is waiting for when they arrive.
\<close>

definition preprocess_out :: "iolib \<Rightarrow> string \<Rightarrow> string list \<Rightarrow> string list" where
  "preprocess_out L csv_path csv = out (snd (preprocess_run L csv_path (Some csv)))"

definition forward_out :: "iolib \<Rightarrow> string list \<Rightarrow> string list" where
  "forward_out L lines = out (snd (forward_layer_run L lines))"

definition learner_out :: "iolib \<Rightarrow> Mode \<Rightarrow> params \<Rightarrow> string list \<Rightarrow> string list" where
  "learner_out L mode P lines = out (snd (snd (run_stream L mode P lines)))"

definition events :: "(nat \<Rightarrow> bool \<times> bool) \<Rightarrow> string list \<Rightarrow> logger_event list" where
  "events sig lines = map (\<lambda>n. (lines ! n, sig n)) [0..<length lines]"

definition logger_out :: "iolib \<Rightarrow> (nat \<Rightarrow> bool \<times> bool) \<Rightarrow> string list \<Rightarrow> string list" where
  "logger_out L sig lines = lg_out (snd (logger_run L (events sig lines)))"

definition pipeline ::
  "iolib \<Rightarrow> Mode \<Rightarrow> params \<Rightarrow> (nat \<Rightarrow> bool \<times> bool) \<Rightarrow> string \<Rightarrow> string list \<Rightarrow> string list" where
  "pipeline L mode P sig csv_path csv =
     logger_out L sig (learner_out L mode P (forward_out L (preprocess_out L csv_path csv)))"




text \<open>No signal reaches the logger.\<close>

definition no_signal :: "nat \<Rightarrow> bool \<times> bool" where
  "no_signal n = (False, False)"

text \<open>A small dataset with an empty line and a malformed one.\<close>

definition csv_example :: "string list" where
  "csv_example = [''1,0.5,0,0,3,2'', [], ''bogus line'', ''2, 1, 0, 0, 0, 1'']"


section \<open>Evaluation and bookkeeping lemmas\<close>

lemma upt_INPUT_DIM: "[0..<INPUT_DIM] = [0, 1, 2, 3]"
  by (simp add: INPUT_DIM_def upt_rec)

lemma upt_HIDDEN_DIM: "[0..<HIDDEN_DIM] = [0, 1, 2, 3, 4, 5, 6, 7]"
  by (simp add: HIDDEN_DIM_def upt_rec)

lemma dec_digits_numeral:
  "dec_digits (numeral k) =
     (if (numeral k :: nat) < 10 then [digit_char (numeral k)]
      else dec_digits (numeral k div 10) @ [digit_char (numeral k mod 10)])"
  by (rule dec_digits.simps)

declare dec_digits.simps [simp del]

lemma dec_digits_0: "dec_digits 0 = ''0''"
  by (subst dec_digits.simps) (simp add: digit_char_def)

lemma dec_digits_1: "dec_digits (Suc 0) = ''1''"
  by (subst dec_digits.simps) (simp add: digit_char_def)

lemma replicate_numeral:
  "replicate (numeral k) x = x # replicate (pred_numeral k) x"
  by (simp add: numeral_eq_Suc)

lemmas dec_eval = dec_digits_numeral dec_digits_0 dec_digits_1 digit_char_def
  isspace_def isdigit_def digit_value_def dec_value_def skip_sign_def
  dec_get_size_t_def dec_get_int_def dec_get_float_def dec_get_char_def
  dec_put_int_def dec_put_float_def decimal_lib_def Let_def replicate_numeral

lemma read_features_numeral:
  "read_features L (numeral n) i xs ss =
     (case get_float L ss of
        Failure _ \<Rightarrow> None
      | Extracted v ss' \<Rightarrow> read_features L (pred_numeral n) (Suc i) (xs[i := v]) ss')"
  by (simp add: numeral_eq_Suc)

lemma read_features_1:
  "read_features L (Suc 0) i xs ss =
     (case get_float L ss of
        Failure _ \<Rightarrow> None
      | Extracted v ss' \<Rightarrow> Some (xs[i := v], ss'))"
  by (simp split: extraction.splits)

lemmas parse_eval = parse_sample_line_def empty_sample_def INPUT_DIM_def
  read_features_numeral read_features_1 replicate_numeral

lemmas forward_eval = compute_forward_def forward_all_def hidden_z_def upt_INPUT_DIM upt_HIDDEN_DIM
  relu_def

lemma parsed_samples_simps:
  "parsed_samples L [] = []"
  "parsed_samples L ([] # lines) = parsed_samples L lines"
  "line \<noteq> [] \<Longrightarrow> parse_sample_line L line = None \<Longrightarrow> parsed_samples L (line # lines) = parsed_samples L lines"
  "line \<noteq> [] \<Longrightarrow> parse_sample_line L line = Some s \<Longrightarrow> parsed_samples L (line # lines) = s # parsed_samples L lines"
  by (simp_all add: parsed_samples_def List.map_filter_simps)

text \<open>Two lines of the learner's input under the decimal library, used in examples.\<close>

lemma parse_line_1: "parse_sample_line decimal_lib ''1 0 0 0 3 2'' = Some \<lparr>s_x = [0, 0, 0, 3], s_y = 2, s_id = 1\<rparr>"
  by (simp add: parse_eval dec_eval)

lemma parse_line_x: "parse_sample_line decimal_lib ''x'' = None"
  by (simp add: parse_eval dec_eval)

lemma parse_line_2: "parse_sample_line decimal_lib ''2 1 0 0 0 1'' = Some \<lparr>s_x = [1, 0, 0, 0], s_y = 1, s_id = 2\<rparr>"
  by (simp add: parse_eval dec_eval)

lemma parsed_samples_example:
  "parsed_samples decimal_lib [''1 0 0 0 3 2'', [], ''x'', ''2 1 0 0 0 1'']
     = [\<lparr>s_x = [0, 0, 0, 3], s_y = 2, s_id = 1\<rparr>, \<lparr>s_x = [1, 0, 0, 0], s_y = 1, s_id = 2\<rparr>]"
  by (simp add: parsed_samples_simps parse_line_1 parse_line_x parse_line_2)

lemma forward_example_1: "compute_forward init_params \<lparr>s_x = [0, 0, 0, 3], s_y = 2, s_id = 1\<rparr> = 0.015"
  by (simp add: forward_eval init_params_def)

lemma forward_example_2: "compute_forward init_params \<lparr>s_x = [1, 0, 0, 0], s_y = 1, s_id = 2\<rparr> = 0.005"
  by (simp add: forward_eval init_params_def)

section \<open>Normalisation\<close>

lemma normalize_step_id:
  "xs[i := (xs ! i - FEATURE_MEAN ! i) / FEATURE_STD ! i] = xs" if "i < INPUT_DIM"
proof -
  from that have "i \<in> {0, 1, 2, 3}"
    by (auto simp: INPUT_DIM_def)
  then have "FEATURE_MEAN ! i = 0" and "FEATURE_STD ! i = 1"
    by (auto simp: FEATURE_MEAN_def FEATURE_STD_def)
  then show ?thesis
    by simp
qed

lemma normalize_fold_id:
  "foldl (\<lambda>x i. x[i := (x ! i - FEATURE_MEAN ! i) / FEATURE_STD ! i]) xs js = xs"
  if "\<forall>j \<in> set js. j < INPUT_DIM"
  using that by (induction js arbitrary: xs) (simp_all add: normalize_step_id)

text \<open>
  C9. The per-feature means are all 0 and the deviations all 1, so the loop of
  \<open>normalize_features\<close> stores every feature back unchanged: \<open>normalize_sample\<close> returns
  each sample as it was, whatever its features.
\<close>

theorem normalize_sample_identity: "normalize_sample s = s"
proof -
  have "normalize_features (s_x s) = s_x s"
    unfolding normalize_features_def by (rule normalize_fold_id) simp
  then show ?thesis
    by (simp add: normalize_sample_def)
qed

theorem normalize_sample_identity_witness:
  "normalize_sample \<lparr>s_x = [1.5, -2, 0, 7], s_y = 2, s_id = 1\<rparr>
     = \<lparr>s_x = [1.5, -2, 0, 7], s_y = 2, s_id = 1\<rparr>"
  using normalize_sample_identity [of "\<lparr>s_x = [1.5, -2, 0, 7], s_y = 2, s_id = 1\<rparr>"] by simp

section \<open>The prediction argument of the update\<close>

text \<open>
  C10. \<open>compute_backward_and_update\<close> never reads its \<open>y_hat\<close> argument: it runs the
  forward pass again and hands the recomputed prediction to \<open>backward_internal\<close>. So any
  two values of \<open>y_hat\<close> give the same loss, the same gradient norm and the same updated
  parameters, namely those that \<open>backward_internal\<close> computes from the prediction of
  \<open>compute_forward\<close>.
\<close>

theorem compute_backward_and_update_ignores_y_hat:
  "compute_backward_and_update P s y_hat = compute_backward_and_update P s y_hat'
   \<and> compute_backward_and_update P s y_hat
       = backward_internal P s (compute_forward P s)
           (fst (forward_all P s)) (fst (snd (forward_all P s)))"
  by (simp add: compute_backward_and_update_def compute_forward_def split: prod.splits)

theorem compute_backward_and_update_ignores_y_hat_witness:
  "compute_backward_and_update init_params \<lparr>s_x = [0, 0, 0, 3], s_y = 2, s_id = 1\<rparr> 0
     = compute_backward_and_update init_params \<lparr>s_x = [0, 0, 0, 3], s_y = 2, s_id = 1\<rparr> 1000"
  using compute_backward_and_update_ignores_y_hat
    [of init_params "\<lparr>s_x = [0, 0, 0, 3], s_y = 2, s_id = 1\<rparr>" 0 1000]
  by (rule conjunct1)

section \<open>The learner in test mode\<close>

lemma run_stream_body_test:
  "run_stream_body Test P s =
     (0.5 * (compute_forward P s - s_y s)\<^sup>2, compute_forward P s, P)"
  by (simp add: run_stream_body_def Let_def power2_eq_square)

lemma run_stream_loop_test:
  "run_stream_loop L Test (P, io) lines =
     (P, io\<lparr>out := out io @ map (\<lambda>s. result_line L (s_id s) (0.5 * (compute_forward P s - s_y s)\<^sup>2) (compute_forward P s)) (parsed_samples L lines),
            err := err io @ map (\<lambda>line. ''backward_layer: failed to parse line: '' @ line)
                     (filter (\<lambda>line. line \<noteq> [] \<and> parse_sample_line L line = None) lines)\<rparr>)"
proof (induction lines arbitrary: io)
  case Nil
  show ?case by (simp add: parsed_samples_simps)
next
  case (Cons line lines)
  show ?case
  proof (cases "line = []")
    case True
    then show ?thesis using Cons.IH by (simp add: parsed_samples_simps)
  next
    case False
    show ?thesis
    proof (cases "parse_sample_line L line")
      case None
      with False show ?thesis using Cons.IH by (simp add: parsed_samples_simps)
    next
      case (Some s)
      with False show ?thesis using Cons.IH
        by (simp add: parsed_samples_simps run_stream_body_test)
    qed
  qed
qed

text \<open>
  C7. In test mode the stream loop returns the parameters it was started with, whatever
  the input: no record changes \<open>W1\<close>, \<open>b1\<close>, \<open>w2\<close> or \<open>b2\<close>. Each accepted record
  is answered with its id, the loss \<open>0.5 * (prediction - label)\<^sup>2\<close> and the prediction,
  all computed from those unchanged parameters; a line that does not parse only leaves a
  diagnostic.
\<close>

theorem test_mode_keeps_parameters:
  "run_stream L Test P lines =
     (0, P,
      \<lparr>out = map (\<lambda>s. result_line L (s_id s) (0.5 * (compute_forward P s - s_y s)\<^sup>2) (compute_forward P s))
               (parsed_samples L lines),
       err = map (\<lambda>line. ''backward_layer: failed to parse line: '' @ line)
               (filter (\<lambda>line. line \<noteq> [] \<and> parse_sample_line L line = None) lines)\<rparr>)"
  by (simp add: run_stream_def run_stream_loop_test)

theorem test_mode_keeps_parameters_witness:
  "run_stream decimal_lib Test init_params [''1 0 0 0 3 2'', [], ''x'', ''2 1 0 0 0 1'']
     = (0, init_params,
        \<lparr>out = [''1 1.970112 0.015000'', ''2 0.495012 0.005000''],
         err = [''backward_layer: failed to parse line: x'']\<rparr>)"
  unfolding test_mode_keeps_parameters
  by (simp add: parsed_samples_example parse_line_1 parse_line_x parse_line_2
        forward_example_1 forward_example_2)
    (simp add: result_line_def dec_eval power2_eq_square)

section \<open>The logger\<close>

lemma snapshot_frame:
  "lg_count (snapshot L st) = lg_count st"
  "total_loss (snapshot L st) = total_loss st"
  "total_yhat (snapshot L st) = total_yhat st"
  "lg_out (snapshot L st) = lg_out st"
  "g_terminate_requested (snapshot L st) = g_terminate_requested st"
  by (simp_all add: snapshot_def Let_def)

lemma account_fields:
  "lg_count (account L (i, loss, y_hat) st) = lg_count st + 1"
  "total_loss (account L (i, loss, y_hat) st) = total_loss st + loss"
  "total_yhat (account L (i, loss, y_hat) st) = total_yhat st + y_hat"
  "lg_out (account L (i, loss, y_hat) st) = lg_out st @ [sample_line L i loss y_hat]"
  "lg_err (account L (i, loss, y_hat) st) = lg_err st"
  "g_terminate_requested (account L (i, loss, y_hat) st) = g_terminate_requested st"
  "g_dump_requested (account L (i, loss, y_hat) st) = g_dump_requested st"
  by (simp_all add: account_def)

lemma deliver_fields:
  "lg_count (deliver u t st) = lg_count st"
  "total_loss (deliver u t st) = total_loss st"
  "total_yhat (deliver u t st) = total_yhat st"
  "lg_out (deliver u t st) = lg_out st"
  "lg_err (deliver u t st) = lg_err st"
  "g_terminate_requested (deliver u t st) = (g_terminate_requested st \<or> t)"
  "g_dump_requested (deliver u t st) = (g_dump_requested st \<or> u)"
  by (simp_all add: deliver_def)

lemma logger_loop_stats:
  "lg_count (logger_loop L st evs) = lg_count st + of_nat (length (processed L (g_terminate_requested st) evs))
   \<and> total_loss (logger_loop L st evs)
       = total_loss st + sum_list (map (\<lambda>(i, loss, y_hat). loss) (processed L (g_terminate_requested st) evs))
   \<and> total_yhat (logger_loop L st evs)
       = total_yhat st + sum_list (map (\<lambda>(i, loss, y_hat). y_hat) (processed L (g_terminate_requested st) evs))
   \<and> lg_out (logger_loop L st evs)
       = lg_out st @ map (\<lambda>(i, loss, y_hat). sample_line L i loss y_hat) (processed L (g_terminate_requested st) evs)"
proof (induction evs arbitrary: st)
  case Nil
  show ?case by simp
next
  case (Cons ev evs)
  obtain line usr1 sigterm where ev: "ev = (line, usr1, sigterm)"
    by (cases ev)
  let ?st0 = "deliver usr1 sigterm st"
  show ?case
  proof (cases "line = []")
    case True
    then show ?thesis
      using Cons.IH [of ?st0] by (cases "g_terminate_requested st \<or> sigterm") (simp_all add: ev Let_def deliver_fields)
  next
    case False
    show ?thesis
    proof (cases "parse_result_line L line")
      case None
      let ?st1 = "?st0\<lparr>lg_err := lg_err ?st0 @ [''logger: failed to parse line: '' @ line]\<rparr>"
      show ?thesis
        using False None Cons.IH [of ?st1] by (simp add: ev Let_def deliver_fields)
    next
      case (Some r)
      obtain i loss y_hat where r: "r = (i, loss, y_hat)"
        by (cases r)
      let ?st1 = "snapshot L (account L r ?st0)"
      show ?thesis
        using False Some Cons.IH [of ?st1]
        by (cases "g_terminate_requested st \<or> sigterm")
          (simp_all add: ev r Let_def deliver_fields snapshot_frame account_fields)
    qed
  qed
qed

lemma unat_of_nat_64: "n < 2 ^ 64 \<Longrightarrow> unat (of_nat n :: 64 word) = n"
  by (simp add: unat_of_nat)

lemma word64_pos_iff: "n < 2 ^ 64 \<Longrightarrow> (of_nat n :: 64 word) > 0 \<longleftrightarrow> n > 0"
  using unat_of_nat_64 [of n] unat_gt_0 [of "of_nat n :: 64 word"] by (simp add: word_greater_zero_iff)

lemma sample_line_not_summary: "\<not> is_summary (sample_line L i loss y_hat)"
  by (simp add: is_summary_def sample_line_def)

lemma summary_line_is_summary: "is_summary (summary_line L n a b)"
  by (simp add: is_summary_def summary_line_def)

lemma parse_result_1: "parse_result_line decimal_lib ''1 0.5 0.25'' = Some (1, 0.5, 0.25)"
  by (simp add: parse_result_line_def dec_eval)

lemma parse_result_2: "parse_result_line decimal_lib ''2 1.5 0.75'' = Some (2, 1.5, 0.75)"
  by (simp add: parse_result_line_def dec_eval)

lemma parse_result_junk: "parse_result_line decimal_lib ''junk'' = None"
  by (simp add: parse_result_line_def dec_eval)

lemma processed_example:
  "processed decimal_lib False events_example = [(1, 0.5, 0.25), (2, 1.5, 0.75)]"
  by (simp add: events_example_def parse_result_1 parse_result_2 parse_result_junk)

lemma processed_junk: "processed decimal_lib False [(''junk'', True, False), ([], False, True)] = []"
  by (simp add: parse_result_junk)

text \<open>
  Iterations that process no record leave a snapshot request pending, and an iteration
  that processes one serves it.
\<close>

lemma logger_loop_no_record:
  "list_all (no_record L) pre \<Longrightarrow> \<not> g_terminate_requested st \<Longrightarrow>
   logger_loop L st (pre @ evs)
     = logger_loop L (st\<lparr>g_dump_requested := g_dump_requested st \<or> requested pre,
                          lg_err := lg_err st @ parse_failures pre\<rparr>) evs"
proof (induction pre arbitrary: st)
  case Nil
  show ?case by (simp add: requested_def parse_failures_def)
next
  case (Cons ev pre)
  obtain line usr1 sigterm where ev: "ev = (line, usr1, sigterm)"
    by (cases ev)
  from Cons.prems have idle: "list_all (no_record L) pre" and quiet: "\<not> sigterm"
    and none: "line = [] \<or> parse_result_line L line = None"
    by (simp_all add: ev no_record_def)
  have d: "deliver usr1 sigterm st = st\<lparr>g_dump_requested := g_dump_requested st \<or> usr1\<rparr>"
    using Cons.prems(2) quiet by (intro logger_state.equality) (simp_all add: deliver_def)
  let ?st0 = "st\<lparr>g_dump_requested := g_dump_requested st \<or> usr1\<rparr>"
  show ?case
  proof (cases "line = []")
    case True
    have q: "\<not> g_terminate_requested ?st0"
      using Cons.prems(2) by simp
    have "logger_loop L st ((ev # pre) @ evs) = logger_loop L ?st0 (pre @ evs)"
      using True q by (simp add: ev Let_def d)
    also have "\<dots> = logger_loop L (?st0\<lparr>g_dump_requested := g_dump_requested ?st0 \<or> requested pre,
                          lg_err := lg_err ?st0 @ parse_failures pre\<rparr>) evs"
      by (rule Cons.IH [OF idle q])
    also have "?st0\<lparr>g_dump_requested := g_dump_requested ?st0 \<or> requested pre,
                          lg_err := lg_err ?st0 @ parse_failures pre\<rparr>
        = st\<lparr>g_dump_requested := g_dump_requested st \<or> requested (ev # pre),
                          lg_err := lg_err st @ parse_failures (ev # pre)\<rparr>"
      using True by (intro logger_state.equality) (simp_all add: ev requested_def parse_failures_def)
    finally show ?thesis .
  next
    case False
    with none have p: "parse_result_line L line = None" by simp
    let ?st1 = "?st0\<lparr>lg_err := lg_err ?st0 @ [''logger: failed to parse line: '' @ line]\<rparr>"
    have q: "\<not> g_terminate_requested ?st1"
      using Cons.prems(2) by simp
    have "logger_loop L st ((ev # pre) @ evs) = logger_loop L ?st1 (pre @ evs)"
      using False p by (simp add: ev Let_def d)
    also have "\<dots> = logger_loop L (?st1\<lparr>g_dump_requested := g_dump_requested ?st1 \<or> requested pre,
                          lg_err := lg_err ?st1 @ parse_failures pre\<rparr>) evs"
      by (rule Cons.IH [OF idle q])
    also have "?st1\<lparr>g_dump_requested := g_dump_requested ?st1 \<or> requested pre,
                          lg_err := lg_err ?st1 @ parse_failures pre\<rparr>
        = st\<lparr>g_dump_requested := g_dump_requested st \<or> requested (ev # pre),
                          lg_err := lg_err st @ parse_failures (ev # pre)\<rparr>"
      using False by (intro logger_state.equality) (simp_all add: ev requested_def parse_failures_def)
    finally show ?thesis .
  qed
qed

lemma snapshot_after_record:
  assumes "line \<noteq> []" and "parse_result_line L line = Some (i, loss, y_hat)"
    and "g_dump_requested st \<or> usr1" and "lg_count st \<noteq> - 1"
  shows "logger_loop L st ((line, usr1, sigterm) # evs) =
     (let n = lg_count st + 1;
          st' = st\<lparr>lg_count := n,
                  total_loss := total_loss st + loss,
                  total_yhat := total_yhat st + y_hat,
                  g_dump_requested := False,
                  g_terminate_requested := g_terminate_requested st \<or> sigterm,
                  lg_out := lg_out st @ [''SAMPLE '' @ put_int L i @ '' LOSS '' @ put_float L loss
                                          @ '' YHAT '' @ put_float L y_hat],
                  lg_err := lg_err st @
                    [''[LOGGER SNAPSHOT] samples='' @ put_size_t L (unat n)
                       @ '' avg_loss='' @ put_double L ((total_loss st + loss) / real (unat n))
                       @ '' avg_yhat='' @ put_double L ((total_yhat st + y_hat) / real (unat n))]\<rparr>
      in if g_terminate_requested st' then st' else logger_loop L st' evs)"
proof -
  let ?n = "lg_count st + 1"
  let ?st' = "st\<lparr>lg_count := ?n,
                  total_loss := total_loss st + loss,
                  total_yhat := total_yhat st + y_hat,
                  g_dump_requested := False,
                  g_terminate_requested := g_terminate_requested st \<or> sigterm,
                  lg_out := lg_out st @ [''SAMPLE '' @ put_int L i @ '' LOSS '' @ put_float L loss
                                          @ '' YHAT '' @ put_float L y_hat],
                  lg_err := lg_err st @
                    [''[LOGGER SNAPSHOT] samples='' @ put_size_t L (unat ?n)
                       @ '' avg_loss='' @ put_double L ((total_loss st + loss) / real (unat ?n))
                       @ '' avg_yhat='' @ put_double L ((total_yhat st + y_hat) / real (unat ?n))]\<rparr>"
  from assms(4) have pos: "?n > 0"
    by (metis add.commute add.inverse_inverse add_eq_0_iff word_greater_zero_iff minus_equation_iff)
  have "snapshot L (account L (i, loss, y_hat) (deliver usr1 sigterm st)) = ?st'"
    using assms(3) pos
    by (intro logger_state.equality)
      (simp_all add: deliver_def account_def snapshot_def Let_def average_def snapshot_line_def sample_line_def)
  with assms(1,2) show ?thesis
    by (simp only: logger_loop.simps Let_def if_False option.case)
qed


text \<open>
  C5 (amended). When an iteration of the logger's loop has processed a record (counter,
  both sums, echo line) and finds a snapshot request pending, raised before or during the
  iteration, it clears the flag and prints to the diagnostic output the snapshot line with
  the counter and the two sums divided by the counter. The counter is then at least 1
  (it is looked at after the increment; the counter is assumed below its maximum, so that
  the increment does not wrap). The stop flag is looked at only afterwards.
  A request raised while no record has been processed is not dropped. Through empty and
  unparsable lines it stays pending, with nothing printed for it, and it is served right
  after the first record, with count 1 and that record's loss and prediction as averages.
\<close>

theorem snapshot_request_served:
  assumes "line \<noteq> []" and "parse_result_line L line = Some (i, loss, y_hat)"
  shows "((g_dump_requested st \<or> usr) \<and> lg_count st \<noteq> - 1 \<longrightarrow>
      logger_loop L st ((line, usr, sigterm) # evs) =
       (let n = lg_count st + 1;
            st' = st\<lparr>lg_count := n,
                    total_loss := total_loss st + loss,
                    total_yhat := total_yhat st + y_hat,
                    g_dump_requested := False,
                    g_terminate_requested := g_terminate_requested st \<or> sigterm,
                    lg_out := lg_out st @ [''SAMPLE '' @ put_int L i @ '' LOSS '' @ put_float L loss
                                            @ '' YHAT '' @ put_float L y_hat],
                    lg_err := lg_err st @
                      [''[LOGGER SNAPSHOT] samples='' @ put_size_t L (unat n)
                         @ '' avg_loss='' @ put_double L ((total_loss st + loss) / real (unat n))
                         @ '' avg_yhat='' @ put_double L ((total_yhat st + y_hat) / real (unat n))]\<rparr>
        in if g_terminate_requested st' then st' else logger_loop L st' evs))
    \<and> (list_all (no_record L) pre \<longrightarrow>
         g_dump_requested (logger_loop L logger_init pre) = requested pre
         \<and> lg_count (logger_loop L logger_init pre) = 0
         \<and> lg_err (logger_loop L logger_init pre) = parse_failures pre)
    \<and> (list_all (no_record L) pre \<and> (requested pre \<or> usr) \<longrightarrow>
         logger_loop L logger_init (pre @ (line, usr, sigterm) # evs) =
          (let st' = \<lparr>lg_count = 1, total_loss = loss, total_yhat = y_hat,
                      g_dump_requested = False, g_terminate_requested = sigterm,
                      lg_out = [''SAMPLE '' @ put_int L i @ '' LOSS '' @ put_float L loss
                                 @ '' YHAT '' @ put_float L y_hat],
                      lg_err = parse_failures pre @
                        [''[LOGGER SNAPSHOT] samples='' @ put_size_t L 1
                           @ '' avg_loss='' @ put_double L loss
                           @ '' avg_yhat='' @ put_double L y_hat]\<rparr>
           in if sigterm then st' else logger_loop L st' evs))"
proof -
  have init: "\<not> g_terminate_requested logger_init"
    by (simp add: logger_init_def)
  let ?st = "logger_init\<lparr>g_dump_requested := g_dump_requested logger_init \<or> requested pre,
                          lg_err := lg_err logger_init @ parse_failures pre\<rparr>"
  have pending: "g_dump_requested (logger_loop L logger_init pre) = requested pre
         \<and> lg_count (logger_loop L logger_init pre) = 0
         \<and> lg_err (logger_loop L logger_init pre) = parse_failures pre"
    if "list_all (no_record L) pre"
    using logger_loop_no_record [OF that init, of "[]"] by (simp add: logger_init_def)
  have served: "logger_loop L logger_init (pre @ (line, usr, sigterm) # evs) =
          (let st' = \<lparr>lg_count = 1, total_loss = loss, total_yhat = y_hat,
                      g_dump_requested = False, g_terminate_requested = sigterm,
                      lg_out = [''SAMPLE '' @ put_int L i @ '' LOSS '' @ put_float L loss
                                 @ '' YHAT '' @ put_float L y_hat],
                      lg_err = parse_failures pre @
                        [''[LOGGER SNAPSHOT] samples='' @ put_size_t L 1
                           @ '' avg_loss='' @ put_double L loss
                           @ '' avg_yhat='' @ put_double L y_hat]\<rparr>
           in if sigterm then st' else logger_loop L st' evs)"
    if idle: "list_all (no_record L) pre" and req: "requested pre \<or> usr"
  proof -
    have a: "g_dump_requested ?st \<or> usr"
      using req by simp
    have b: "lg_count ?st \<noteq> - 1"
      by (simp add: logger_init_def)
    show ?thesis
      unfolding logger_loop_no_record [OF idle init] snapshot_after_record [OF assms a b]
      by (simp add: logger_init_def Let_def)
  qed
  from snapshot_after_record [OF assms] pending served show ?thesis
    by blast
qed

theorem snapshot_request_served_witness:
  "logger_loop decimal_lib logger_init [(''1 0.5 0.25'', True, False)]
     = \<lparr>lg_count = 1, total_loss = 0.5, total_yhat = 0.25,
        g_dump_requested = False, g_terminate_requested = False,
        lg_out = [''SAMPLE 1 LOSS 0.500000 YHAT 0.250000''],
        lg_err = [''[LOGGER SNAPSHOT] samples=1 avg_loss=0.500000 avg_yhat=0.250000'']\<rparr>
   \<and> g_dump_requested (logger_loop decimal_lib logger_init [(''junk'', True, False), ([], False, False)])
   \<and> lg_count (logger_loop decimal_lib logger_init [(''junk'', True, False), ([], False, False)]) = 0
   \<and> lg_err (logger_loop decimal_lib logger_init [(''junk'', True, False), ([], False, False)])
       = [''logger: failed to parse line: junk'']
   \<and> logger_loop decimal_lib logger_init
        [(''junk'', True, False), ([], False, False), (''1 0.5 0.25'', False, False)]
     = \<lparr>lg_count = 1, total_loss = 0.5, total_yhat = 0.25,
        g_dump_requested = False, g_terminate_requested = False,
        lg_out = [''SAMPLE 1 LOSS 0.500000 YHAT 0.250000''],
        lg_err = [''logger: failed to parse line: junk'',
                  ''[LOGGER SNAPSHOT] samples=1 avg_loss=0.500000 avg_yhat=0.250000'']\<rparr>"
proof -
  have a: "(''1 0.5 0.25'' :: string) \<noteq> []"
    by simp
  have idle: "list_all (no_record decimal_lib) [(''junk'', True, False), ([], False, False)]"
    by (simp add: no_record_def parse_result_junk)
  have req: "requested [(''junk'', True, False), ([], False, False)]"
    by (simp add: requested_def)
  have b: "(g_dump_requested logger_init \<or> True) \<and> lg_count logger_init \<noteq> - 1"
    by (simp add: logger_init_def)
  have fails: "parse_failures [(''junk'', True, False), ([], False, False)]
      = [''logger: failed to parse line: junk'']"
    by (simp add: parse_failures_def)
  from snapshot_request_served [where st = logger_init and usr = True
      and pre = "[(''junk'', True, False), ([], False, False)]" and sigterm = False and evs = "[]",
      OF a parse_result_1] idle req b
  have one: "logger_loop decimal_lib logger_init [(''1 0.5 0.25'', True, False)]
     = \<lparr>lg_count = 1, total_loss = 0.5, total_yhat = 0.25,
        g_dump_requested = False, g_terminate_requested = False,
        lg_out = [''SAMPLE 1 LOSS 0.500000 YHAT 0.250000''],
        lg_err = [''[LOGGER SNAPSHOT] samples=1 avg_loss=0.500000 avg_yhat=0.250000'']\<rparr>"
    and two: "g_dump_requested (logger_loop decimal_lib logger_init [(''junk'', True, False), ([], False, False)])
      \<and> lg_count (logger_loop decimal_lib logger_init [(''junk'', True, False), ([], False, False)]) = 0
      \<and> lg_err (logger_loop decimal_lib logger_init [(''junk'', True, False), ([], False, False)])
       = [''logger: failed to parse line: junk'']"
    by (simp_all add: logger_init_def Let_def fails) (simp add: dec_eval)
  from snapshot_request_served [where st = logger_init and usr = False
      and pre = "[(''junk'', True, False), ([], False, False)]" and sigterm = False and evs = "[]",
      OF a parse_result_1] idle req
  have three: "logger_loop decimal_lib logger_init
        [(''junk'', True, False), ([], False, False), (''1 0.5 0.25'', False, False)]
     = \<lparr>lg_count = 1, total_loss = 0.5, total_yhat = 0.25,
        g_dump_requested = False, g_terminate_requested = False,
        lg_out = [''SAMPLE 1 LOSS 0.500000 YHAT 0.250000''],
        lg_err = [''logger: failed to parse line: junk'',
                  ''[LOGGER SNAPSHOT] samples=1 avg_loss=0.500000 avg_yhat=0.250000'']\<rparr>"
    by (simp add: Let_def fails) (simp add: dec_eval)
  from one two three show ?thesis
    by simp
qed

text \<open>
  C5 as stated fails in its second half. A request raised while no record has been
  processed, here during an empty line, is neither served nor cleared by that iteration:
  the flag stays set and nothing is printed. The record that follows is answered with a
  snapshot of count 1.
\<close>

theorem snapshot_request_before_first_record:
  "g_dump_requested (logger_loop decimal_lib logger_init [([], True, False)])
   \<and> lg_count (logger_loop decimal_lib logger_init [([], True, False)]) = 0
   \<and> lg_err (logger_loop decimal_lib logger_init [([], True, False)]) = []
   \<and> lg_err (logger_loop decimal_lib logger_init [([], True, False), (''1 0.5 0.25'', False, False)])
       = [''[LOGGER SNAPSHOT] samples=1 avg_loss=0.500000 avg_yhat=0.250000'']
   \<and> \<not> g_dump_requested
         (logger_loop decimal_lib logger_init [([], True, False), (''1 0.5 0.25'', False, False)])"
  by (simp add: parse_result_1 Let_def deliver_def account_def snapshot_def logger_init_def
      average_def snapshot_line_def)
    (simp add: dec_eval)

text \<open>
  C6. The logger always exits with code 0. If it processed at least one record (and
  fewer than \<open>2\<^sup>6\<^sup>4\<close>, the range of its counter), its normal output is the echo lines
  followed by one line \<open>SUMMARY count average_loss average_prediction\<close>, the only
  summary line of the output. If it processed none, its normal output is empty and the
  last line of its diagnostic output is the note that no samples were processed.
\<close>

theorem logger_final_summary:
  assumes "length (processed L False evs) < 2 ^ 64"
  shows "fst (logger_run L evs) = 0
    \<and> (processed L False evs \<noteq> [] \<longrightarrow>
         lg_out (snd (logger_run L evs))
           = map (\<lambda>(i, loss, y_hat). sample_line L i loss y_hat) (processed L False evs)
             @ [summary_line L (of_nat (length (processed L False evs)))
                  (sum_list (map (\<lambda>(i, loss, y_hat). loss) (processed L False evs))
                     / real (length (processed L False evs)))
                  (sum_list (map (\<lambda>(i, loss, y_hat). y_hat) (processed L False evs))
                     / real (length (processed L False evs)))]
         \<and> length (filter is_summary (lg_out (snd (logger_run L evs)))) = 1)
    \<and> (processed L False evs = [] \<longrightarrow>
         lg_out (snd (logger_run L evs)) = []
         \<and> lg_err (snd (logger_run L evs)) \<noteq> []
         \<and> last (lg_err (snd (logger_run L evs))) = ''[LOGGER FINAL] no samples processed'')"
proof -
  let ?rs = "processed L False evs"
  let ?st = "logger_loop L logger_init evs"
  have init: "g_terminate_requested logger_init = False" "lg_count logger_init = 0"
    "total_loss logger_init = 0" "total_yhat logger_init = 0" "lg_out logger_init = []"
    by (simp_all add: logger_init_def)
  from logger_loop_stats [of L logger_init evs]
  have count: "lg_count ?st = of_nat (length ?rs)"
    and loss: "total_loss ?st = sum_list (map (\<lambda>(i, loss, y_hat). loss) ?rs)"
    and yhat: "total_yhat ?st = sum_list (map (\<lambda>(i, loss, y_hat). y_hat) ?rs)"
    and out: "lg_out ?st = map (\<lambda>(i, loss, y_hat). sample_line L i loss y_hat) ?rs"
    by (simp_all add: init)
  have pos: "lg_count ?st > 0 \<longleftrightarrow> ?rs \<noteq> []"
    using assms by (simp add: count word64_pos_iff)
  have no_summary: "filter is_summary (map (\<lambda>(i, loss, y_hat). sample_line L i loss y_hat) ?rs) = []"
    by (auto simp: filter_empty_conv sample_line_not_summary)
  have rc: "fst (logger_run L evs) = 0"
    by (simp add: logger_run_def)
  have some: "lg_out (snd (logger_run L evs))
           = map (\<lambda>(i, loss, y_hat). sample_line L i loss y_hat) ?rs
             @ [summary_line L (of_nat (length ?rs))
                  (sum_list (map (\<lambda>(i, loss, y_hat). loss) ?rs) / real (length ?rs))
                  (sum_list (map (\<lambda>(i, loss, y_hat). y_hat) ?rs) / real (length ?rs))]
         \<and> length (filter is_summary (lg_out (snd (logger_run L evs)))) = 1"
    if "?rs \<noteq> []"
    using that pos assms
    by (simp add: logger_run_def final_summary_def Let_def average_def count loss yhat out
        unat_of_nat_64 no_summary summary_line_is_summary)
  have none: "lg_out (snd (logger_run L evs)) = []
         \<and> lg_err (snd (logger_run L evs)) \<noteq> []
         \<and> last (lg_err (snd (logger_run L evs))) = ''[LOGGER FINAL] no samples processed''"
    if "?rs = []"
    using that pos by (simp add: logger_run_def final_summary_def out)
  from rc some none show ?thesis
    by blast
qed


theorem logger_final_summary_witness:
  "length (processed decimal_lib False events_example) < 2 ^ 64
   \<and> fst (logger_run decimal_lib events_example) = 0
   \<and> lg_out (snd (logger_run decimal_lib events_example))
       = [''SAMPLE 1 LOSS 0.500000 YHAT 0.250000'',
          ''SAMPLE 2 LOSS 1.500000 YHAT 0.750000'',
          ''SUMMARY 2 1.000000 0.500000'']
   \<and> lg_out (snd (logger_run decimal_lib [(''junk'', True, False), ([], False, True)])) = []
   \<and> last (lg_err (snd (logger_run decimal_lib [(''junk'', True, False), ([], False, True)])))
       = ''[LOGGER FINAL] no samples processed''"
proof -
  have len: "length (processed decimal_lib False events_example) < 2 ^ 64"
    by (simp add: processed_example)
  have len': "length (processed decimal_lib False [(''junk'', True, False), ([], False, True)]) < 2 ^ 64"
    by (simp only: processed_junk) simp
  from logger_final_summary [OF len] have
    "fst (logger_run decimal_lib events_example) = 0
     \<and> lg_out (snd (logger_run decimal_lib events_example))
       = [''SAMPLE 1 LOSS 0.500000 YHAT 0.250000'',
          ''SAMPLE 2 LOSS 1.500000 YHAT 0.750000'',
          ''SUMMARY 2 1.000000 0.500000'']"
    by (simp add: processed_example) (simp add: sample_line_def summary_line_def dec_eval)
  moreover from logger_final_summary [OF len'] have
    "lg_out (snd (logger_run decimal_lib [(''junk'', True, False), ([], False, True)])) = []
     \<and> last (lg_err (snd (logger_run decimal_lib [(''junk'', True, False), ([], False, True)])))
       = ''[LOGGER FINAL] no samples processed''"
    by (simp only: processed_junk)
  ultimately show ?thesis
    using len by simp
qed


section \<open>The orchestrator\<close>

lemma wait_loop_log: "wait_loop L lg children = lg @ concat (map (child_log L) children)"
  by (induction L lg children rule: wait_loop.induct) simp_all

text \<open>
  Whatever the children's statuses are, once the three pipes and the four children exist
  \<open>trainer_run\<close> returns 0, and its diagnostic output has one line for every child
  reaped, in the order reaped. It returns 1 when a pipe or a fork fails.
\<close>

lemma trainer_run_after_setup:
  "setup_ok env \<Longrightarrow> trainer_run L env = (0, concat (map (child_log L) (reaped env)))"
  by (simp add: trainer_run_def setup_ok_def spawn_child_def wait_loop_log)

lemma trainer_run_failed_setup: "\<not> setup_ok env \<Longrightarrow> fst (trainer_run L env) = 1"
  by (auto simp: trainer_run_def setup_ok_def spawn_child_def)

text \<open>
  C1. The claim asks for a result other than 0 when a stage does not exit with code 0, and
  so does the header (\<^verbatim>\<open>@return 0 on success, non-zero on error\<close>). The code does not
  deliver it: with the learner exiting with code 1 and the logger terminated by signal 13,
  \<open>trainer_run\<close> logs the four terminations, each with its code or signal, and returns 0.
\<close>

theorem trainer_run_zero_despite_failed_stage:
  "trainer_run decimal_lib (env_example (Exited 1) (Signaled 13))
     = (0, [''trainer: child 101 exited with status 0'', ''trainer: child 102 exited with status 0'',
            ''trainer: child 103 exited with status 1'', ''trainer: child 104 terminated by signal 13''])"
  by (simp add: trainer_run_def env_example_def spawn_child_def) (simp add: dec_eval)


section \<open>Loading the parameter file\<close>

lemma load_parameters_bad_file:
  "bad_parameter_file L file \<Longrightarrow> load_parameters L file P = (False, P)"
  by (auto simp: bad_parameter_file_def header_matches_def load_parameters_def
      split: option.splits extraction.splits)

text \<open>
  C3 (amended). When the parameter file cannot be opened, or its header cannot be read or
  does not give the dimensions of the running topology, \<open>load_parameters\<close> returns false
  and the parameters are exactly what they were before the call. In test mode the stage
  then reports it on the diagnostic output, goes on to process its input with those
  parameters, and exits with code 0.
\<close>

theorem load_failure_is_soft:
  "(bad_parameter_file L file \<longrightarrow> load_parameters L file P = (False, P))
   \<and> (get_mode (BACKWARD_MODE env) = Test
        \<and> bad_parameter_file L (files env (get_model_path (MODEL_FILE env))) \<longrightarrow>
      backward_layer_run L env P lines =
        (0, P,
         \<lparr>out = map (\<lambda>s. result_line L (s_id s) (0.5 * (compute_forward P s - s_y s)\<^sup>2) (compute_forward P s))
                  (parsed_samples L lines),
          err = (''backward_layer: no model file at '' @ get_model_path (MODEL_FILE env)
                   @ '', using initial parameters'')
                # map (\<lambda>line. ''backward_layer: failed to parse line: '' @ line)
                    (filter (\<lambda>line. line \<noteq> [] \<and> parse_sample_line L line = None) lines)\<rparr>,
         files env))"
  by (simp add: load_parameters_bad_file backward_layer_run_def Let_def run_stream_def
      run_stream_loop_test)

theorem load_failure_is_soft_witness:
  "bad_parameter_file decimal_lib (Some ''4 8 1 2'')
   \<and> load_parameters decimal_lib (Some ''4 8 1 2'') init_params = (False, init_params)
   \<and> get_mode (BACKWARD_MODE learner_env_example) = Test
   \<and> backward_layer_run decimal_lib learner_env_example init_params
        [''1 0 0 0 3 2'', [], ''x'', ''2 1 0 0 0 1'']
     = (0, init_params,
        \<lparr>out = [''1 1.970112 0.015000'', ''2 0.495012 0.005000''],
         err = [''backward_layer: no model file at logs/model_params.txt, using initial parameters'',
                ''backward_layer: failed to parse line: x'']\<rparr>,
        files learner_env_example)"
proof -
  have bad: "bad_parameter_file decimal_lib (Some ''4 8 1 2'')"
    by (simp add: bad_parameter_file_def header_matches_def HIDDEN_DIM_def INPUT_DIM_def dec_eval)
  have test: "get_mode (BACKWARD_MODE learner_env_example) = Test"
    by (simp add: learner_env_example_def get_mode_def)
  have model: "files learner_env_example (get_model_path (MODEL_FILE learner_env_example)) = Some ''4 8 1 2''"
    by (simp add: learner_env_example_def get_model_path_def)
  have path: "get_model_path (MODEL_FILE learner_env_example) = ''logs/model_params.txt''"
    by (simp add: learner_env_example_def get_model_path_def)
  from load_failure_is_soft [of decimal_lib "Some ''4 8 1 2''" init_params learner_env_example
      "[''1 0 0 0 3 2'', [], ''x'', ''2 1 0 0 0 1'']"] bad test model
  have "load_parameters decimal_lib (Some ''4 8 1 2'') init_params = (False, init_params)"
    and "backward_layer_run decimal_lib learner_env_example init_params
        [''1 0 0 0 3 2'', [], ''x'', ''2 1 0 0 0 1'']
     = (0, init_params,
        \<lparr>out = [''1 1.970112 0.015000'', ''2 0.495012 0.005000''],
         err = [''backward_layer: no model file at logs/model_params.txt, using initial parameters'',
                ''backward_layer: failed to parse line: x'']\<rparr>,
        files learner_env_example)"
    by (simp_all add: path parsed_samples_example parse_line_1 parse_line_x parse_line_2
        forward_example_1 forward_example_2)
      (simp add: result_line_def dec_eval power2_eq_square)
  with bad test show ?thesis
    by simp
qed

lemma load_truncated_header: "dec_get_size_t ''8 4 7'' = Extracted 8 '' 4 7''"
  "dec_get_size_t '' 4 7'' = Extracted 4 '' 7''"
  "dec_get_float '' 7'' = Extracted 7 []"
  "dec_get_float [] = Failure None"
  by (simp_all add: dec_eval)

text \<open>
  C3 as stated fails: a file whose header matches and whose body stops after one value
  makes \<open>load_parameters\<close> return false with that value already stored in \<open>W1\<close>.
\<close>

theorem load_failure_after_header_is_partial:
  "load_parameters decimal_lib (Some ''8 4 7'') init_params
     = (False, init_params\<lparr>g_W1 := (g_W1 init_params)[0 := [7, 0, 0, 0]]\<rparr>)
   \<and> init_params\<lparr>g_W1 := (g_W1 init_params)[0 := [7, 0, 0, 0]]\<rparr> \<noteq> init_params"
proof -
  have lib: "get_size_t decimal_lib = dec_get_size_t" "get_float decimal_lib = dec_get_float"
    by (simp_all add: decimal_lib_def)
  have "load_parameters decimal_lib (Some ''8 4 7'') init_params
     = (False, init_params\<lparr>g_W1 := (g_W1 init_params)[0 := [7, 0, 0, 0]]\<rparr>)"
    by (simp add: load_parameters_def lib load_truncated_header HIDDEN_DIM_def INPUT_DIM_def
        load_W1_def load_b1_def load_w2_def load_b2_def upt_rec init_params_def)
  moreover have "init_params\<lparr>g_W1 := (g_W1 init_params)[0 := [7, 0, 0, 0]]\<rparr> \<noteq> init_params"
    by (simp add: init_params_def)
  ultimately show ?thesis
    by simp
qed


section \<open>Saving the parameter file\<close>

lemma os_put_failed: "\<not> os_good ofs \<Longrightarrow> os_put bufsize room s ofs = ofs"
  by (simp add: os_put_def)

lemma put_all_failed:
  "\<not> os_good ofs \<Longrightarrow> foldl (\<lambda>ofs s. os_put bufsize room s ofs) ofs ss = ofs"
  by (induction ss) (simp_all add: os_put_failed)

text \<open>
  Whatever the size of the buffer, after the stream is closed the file holds as much of
  the text inserted as the device takes.
\<close>

lemma put_all_close:
  assumes "os_good ofs" and "length (os_file ofs) \<le> room"
  shows "os_close room (foldl (\<lambda>ofs s. os_put bufsize room s ofs) ofs ss)
     = take room (os_file ofs @ os_buffer ofs @ concat ss)"
  using assms
proof (induction ss arbitrary: ofs)
  case Nil
  then show ?case
    by (simp add: os_close_def os_write_def Let_def)
next
  case (Cons s ss)
  let ?n = "room - length (os_file ofs)"
  let ?w = "os_buffer ofs @ s"
  show ?case
  proof (cases "length (os_buffer ofs) + length s \<le> bufsize")
    case True
    with Cons.prems have step: "os_put bufsize room s ofs = ofs\<lparr>os_buffer := ?w\<rparr>"
      by (simp add: os_put_def)
    from Cons.IH [of "ofs\<lparr>os_buffer := ?w\<rparr>"] Cons.prems show ?thesis
      by (simp add: step)
  next
    case False
    show ?thesis
    proof (cases "length ?w \<le> ?n")
      case True
      with False Cons.prems have step:
        "os_put bufsize room s ofs = ofs\<lparr>os_buffer := [], os_file := os_file ofs @ ?w\<rparr>"
        by (simp add: os_put_def os_write_def Let_def)
      from Cons.IH [of "ofs\<lparr>os_buffer := [], os_file := os_file ofs @ ?w\<rparr>"] Cons.prems True
      show ?thesis
        by (simp add: step)
    next
      case short: False
      let ?ofs' = "ofs\<lparr>os_buffer := [], os_file := os_file ofs @ take ?n ?w, os_good := False\<rparr>"
      from False short Cons.prems have step: "os_put bufsize room s ofs = ?ofs'"
        by (simp add: os_put_def os_write_def Let_def)
      have "os_close room (foldl (\<lambda>ofs s. os_put bufsize room s ofs) ofs (s # ss))
          = os_file ofs @ take ?n ?w"
        by (simp add: step put_all_failed os_close_def os_write_def Let_def)
      also from short have "take ?n ?w = take ?n (?w @ concat ss)"
        by simp
      also from Cons.prems have "os_file ofs @ take ?n (?w @ concat ss)
          = take room (os_file ofs @ os_buffer ofs @ concat (s # ss))"
        by simp
      finally show ?thesis .
    qed
  qed
qed

text \<open>
  While the text inserted fits the buffer, nothing is written and the stream stays good.
\<close>

lemma put_all_buffered:
  assumes "os_good ofs" and "length (os_buffer ofs) + length (concat ss) \<le> bufsize"
  shows "os_good (foldl (\<lambda>ofs s. os_put bufsize room s ofs) ofs ss)"
  using assms
proof (induction ss arbitrary: ofs)
  case Nil
  then show ?case by simp
next
  case (Cons s ss)
  from Cons.prems have step: "os_put bufsize room s ofs = ofs\<lparr>os_buffer := os_buffer ofs @ s\<rparr>"
    by (simp add: os_put_def)
  from Cons.IH [of "ofs\<lparr>os_buffer := os_buffer ofs @ s\<rparr>"] Cons.prems show ?case
    by (simp add: step)
qed

lemma save_parameters_as_fold:
  "save_parameters L bufsize True room file P =
     (let ofs = foldl (\<lambda>ofs s. os_put bufsize room s ofs)
                  \<lparr>os_file = [], os_buffer = [], os_good = True\<rparr> (insertions L P)
      in (os_good ofs, Some (os_close room ofs)))"
  by (simp add: save_parameters_def save_W1_def save_vector_def insertions_def
      upt_INPUT_DIM upt_HIDDEN_DIM Let_def)

lemma save_parameters_file:
  "snd (save_parameters L bufsize True room file P) = Some (take room (parameter_text L P))"
  using put_all_close [of "\<lparr>os_file = [], os_buffer = [], os_good = True\<rparr>" room bufsize "insertions L P"]
  by (simp add: save_parameters_as_fold Let_def parameter_text_def)

lemma save_parameters_flag:
  "length (parameter_text L P) \<le> bufsize \<Longrightarrow> fst (save_parameters L bufsize True room file P)"
  using put_all_buffered [of "\<lparr>os_file = [], os_buffer = [], os_good = True\<rparr>" "insertions L P" bufsize room]
  by (simp add: save_parameters_as_fold Let_def parameter_text_def)

lemma put_float_examples:
  "dec_put_float 0 = ''0.000000''"
  "dec_put_float (1 / 10) = ''0.100000''"
  "dec_put_float (- (1 / 10)) = ''-0.100000''"
  "dec_put_float (1 / 20) = ''0.050000''"
  "dec_put_float (- (1 / 20)) = ''-0.050000''"
  by (simp_all add: dec_eval)

lemma parameter_text_init_length: "length (parameter_text decimal_lib init_params) = 463"
proof -
  have lib: "put_size_t decimal_lib = dec_digits" "put_float decimal_lib = dec_put_float"
    by (simp_all add: decimal_lib_def)
  show ?thesis
    by (simp add: parameter_text_def insertions_def lib upt_INPUT_DIM upt_HIDDEN_DIM init_params_def
        put_float_examples)
      (simp add: HIDDEN_DIM_def INPUT_DIM_def dec_digits_numeral digit_char_def)
qed

lemma parameter_text_init_header:
  "take 4 (parameter_text decimal_lib init_params) = [CHR ''8'', CHR '' '', CHR ''4'', newline]"
proof -
  have lib: "put_size_t decimal_lib = dec_digits"
    by (simp add: decimal_lib_def)
  show ?thesis
    by (simp add: parameter_text_def insertions_def lib)
      (simp add: HIDDEN_DIM_def INPUT_DIM_def dec_digits_numeral digit_char_def)
qed

text \<open>
  C4 (amended). \<open>save_parameters\<close> writes straight into the file at the destination
  path, with no temporary file and no renaming. When the path cannot be opened it
  returns false and leaves the file alone. Otherwise it truncates the file and writes the
  header and the parameters in order, so that the file afterwards holds a prefix of the
  complete text: as much of it as the device takes, whatever the size of the stream's
  buffer. The file is complete exactly when the complete text fits on the device.
\<close>

theorem save_parameters_writes_in_place:
  "save_parameters L bufsize False room file P = (False, file)
   \<and> (\<exists>ok txt. save_parameters L bufsize True room file P = (ok, Some txt)
          \<and> txt = take room (parameter_text L P)
          \<and> prefix txt (parameter_text L P)
          \<and> (txt = parameter_text L P \<longleftrightarrow> length (parameter_text L P) \<le> room))"
proof -
  have closed: "save_parameters L bufsize False room file P = (False, file)"
    by (simp add: save_parameters_def)
  let ?txt = "take room (parameter_text L P)"
  have "save_parameters L bufsize True room file P
      = (fst (save_parameters L bufsize True room file P), Some ?txt)"
    by (simp add: prod_eq_iff save_parameters_file)
  moreover have "prefix ?txt (parameter_text L P)"
    by (rule take_is_prefix)
  moreover have "?txt = parameter_text L P \<longleftrightarrow> length (parameter_text L P) \<le> room"
    by (metis length_take min_def take_all_iff)
  ultimately show ?thesis
    using closed by blast
qed

theorem save_parameters_writes_in_place_witness:
  "save_parameters decimal_lib 8192 False 4096 (Some ''old'') init_params = (False, Some ''old'')
   \<and> snd (save_parameters decimal_lib 8192 True 4096 (Some ''old'') init_params)
       = Some (parameter_text decimal_lib init_params)
   \<and> snd (save_parameters decimal_lib 8192 True 4 (Some ''old'') init_params)
       = Some [CHR ''8'', CHR '' '', CHR ''4'', newline]"
  using save_parameters_writes_in_place [of decimal_lib 8192 4096 "Some ''old''" init_params]
    save_parameters_writes_in_place [of decimal_lib 8192 4 "Some ''old''" init_params]
  by (auto simp add: parameter_text_init_length parameter_text_init_header)

text \<open>
  C4 as stated fails: on a device with room for four characters, the call replaces a
  complete parameter file by its header line alone. The text fits the stream's buffer, so
  that no insertion fails and the flag returned is true; the write that falls short is
  the one made when the stream is closed.
\<close>

theorem save_parameters_leaves_partial_file:
  "save_parameters decimal_lib 8192 True 4 (Some (parameter_text decimal_lib init_params)) init_params
     = (True, Some [CHR ''8'', CHR '' '', CHR ''4'', newline])
   \<and> [CHR ''8'', CHR '' '', CHR ''4'', newline] \<noteq> parameter_text decimal_lib init_params"
proof -
  let ?old = "Some (parameter_text decimal_lib init_params)"
  have "fst (save_parameters decimal_lib 8192 True 4 ?old init_params)"
    by (rule save_parameters_flag) (simp add: parameter_text_init_length)
  moreover have "snd (save_parameters decimal_lib 8192 True 4 ?old init_params)
      = Some [CHR ''8'', CHR '' '', CHR ''4'', newline]"
    by (simp only: save_parameters_file parameter_text_init_header)
  ultimately have "save_parameters decimal_lib 8192 True 4 ?old init_params
     = (True, Some [CHR ''8'', CHR '' '', CHR ''4'', newline])"
    by (simp add: prod_eq_iff)
  moreover have "length [CHR ''8'', CHR '' '', CHR ''4'', newline]
      \<noteq> length (parameter_text decimal_lib init_params)"
    by (simp only: parameter_text_init_length) simp
  then have "[CHR ''8'', CHR '' '', CHR ''4'', newline] \<noteq> parameter_text decimal_lib init_params"
    by metis
  ultimately show ?thesis
    by simp
qed


section \<open>The learner in train mode\<close>

subsection \<open>The loops of the update in closed form\<close>

lemma length4: "length xs = 4 \<Longrightarrow> \<exists>a b c d. xs = [a, b, c, d]"
  by (auto simp: length_Suc_conv eval_nat_numeral)

lemma length8: "length xs = 8 \<Longrightarrow> \<exists>a b c d e f g h. xs = [a, b, c, d, e, f, g, h]"
  by (auto simp: length_Suc_conv eval_nat_numeral)

lemma update_row_closed:
  assumes "j < length (g_W1 P)" and "length (g_W1 P ! j) = INPUT_DIM"
  shows "update_row G P j =
     P\<lparr>g_W1 := (g_W1 P)[j := map (\<lambda>k. g_W1 P ! j ! k - LEARNING_RATE * dL_dW1 G ! j ! k) [0..<INPUT_DIM]],
       g_b1 := (g_b1 P)[j := g_b1 P ! j - LEARNING_RATE * dL_db1 G ! j],
       g_w2 := (g_w2 P)[j := g_w2 P ! j - LEARNING_RATE * dL_dw2 G ! j]\<rparr>"
proof -
  from assms(2) have "length (g_W1 P ! j) = 4"
    by (simp add: INPUT_DIM_def)
  then obtain a b c d where row: "g_W1 P ! j = [a, b, c, d]"
    using length4 by blast
  show ?thesis
    using assms(1) by (simp add: update_row_def upt_INPUT_DIM row Let_def)
qed

lemma sgd_update_closed:
  assumes "wf_params P"
  shows "sgd_update G P =
     \<lparr>g_W1 = map (\<lambda>j. map (\<lambda>k. g_W1 P ! j ! k - LEARNING_RATE * dL_dW1 G ! j ! k) [0..<INPUT_DIM]) [0..<HIDDEN_DIM],
      g_b1 = map (\<lambda>j. g_b1 P ! j - LEARNING_RATE * dL_db1 G ! j) [0..<HIDDEN_DIM],
      g_w2 = map (\<lambda>j. g_w2 P ! j - LEARNING_RATE * dL_dw2 G ! j) [0..<HIDDEN_DIM],
      g_b2 = g_b2 P - LEARNING_RATE * dL_db2 G\<rparr>"
proof -
  from assms have "length (g_W1 P) = 8" "length (g_b1 P) = 8" "length (g_w2 P) = 8"
    by (simp_all add: wf_params_def HIDDEN_DIM_def)
  then obtain r0 r1 r2 r3 r4 r5 r6 r7 b0 b1 b2 b3 b4 b5 b6 b7 w0 w1 w2 w3 w4 w5 w6 w7
    where W: "g_W1 P = [r0, r1, r2, r3, r4, r5, r6, r7]"
      and b: "g_b1 P = [b0, b1, b2, b3, b4, b5, b6, b7]"
      and w: "g_w2 P = [w0, w1, w2, w3, w4, w5, w6, w7]"
    using length8 [of "g_W1 P"] length8 [of "g_b1 P"] length8 [of "g_w2 P"] by auto
  from assms W have rows: "length r0 = INPUT_DIM" "length r1 = INPUT_DIM" "length r2 = INPUT_DIM"
    "length r3 = INPUT_DIM" "length r4 = INPUT_DIM" "length r5 = INPUT_DIM"
    "length r6 = INPUT_DIM" "length r7 = INPUT_DIM"
    by (simp_all add: wf_params_def)
  show ?thesis
    by (simp add: sgd_update_def upt_HIDDEN_DIM update_row_closed W b w rows Let_def)
qed


lemma compute_gradients_b2:
  "dL_db2 (compute_gradients P s (compute_forward P s - s_y s) z1 a1) = grad_b2 P s"
  by (simp add: compute_gradients_def Let_def grad_b2_def)

lemma compute_gradients_fields:
  fixes P s z1 a1
  defines "G \<equiv> compute_gradients P s (compute_forward P s - s_y s) z1 a1"
  assumes "j < HIDDEN_DIM" and "z1 ! j = hidden_z P s j" and "a1 ! j = relu (hidden_z P s j)"
  shows "dL_dw2 G ! j = grad_w2 P s j"
    and "dL_db1 G ! j = grad_b1 P s j"
    and "k < INPUT_DIM \<Longrightarrow> dL_dW1 G ! j ! k = grad_W1 P s j k"
  using assms(2-)
  by (simp_all add: G_def compute_gradients_def Let_def grad_w2_def grad_b1_def grad_W1_def)

lemma run_stream_body_train:
  assumes "wf_params P"
  shows "run_stream_body Train P s = (mse_loss P s, compute_forward P s, gd_step P s)"
proof -
  let ?z1 = "map (hidden_z P s) [0..<HIDDEN_DIM]"
  let ?G = "compute_gradients P s (compute_forward P s - s_y s) ?z1 (map relu ?z1)"
  have fw: "forward_all P s = (?z1, map relu ?z1, compute_forward P s)"
    by (simp add: forward_all_def compute_forward_def Let_def)
  have "sgd_update ?G P = gd_step P s"
    unfolding sgd_update_closed [OF assms] gd_step_def
    by (simp add: compute_gradients_fields compute_gradients_b2)
  then show ?thesis
    by (simp add: run_stream_body_def compute_backward_and_update_def fw backward_internal_def
        Let_def mse_loss_def power2_eq_square)
qed

lemma wf_params_gd_step: "wf_params (gd_step P s)"
  by (simp add: wf_params_def gd_step_def list_all_iff)

lemma wf_params_init: "wf_params init_params"
  by (simp add: wf_params_def init_params_def HIDDEN_DIM_def INPUT_DIM_def)

lemma run_stream_loop_train:
  assumes "wf_params P"
  shows "run_stream_loop L Train (P, io) lines =
     (foldl gd_step P (parsed_samples L lines),
      io\<lparr>out := out io @ train_lines L P (parsed_samples L lines),
         err := err io @ map (\<lambda>line. ''backward_layer: failed to parse line: '' @ line)
                  (filter (\<lambda>line. line \<noteq> [] \<and> parse_sample_line L line = None) lines)\<rparr>)"
  using assms
proof (induction lines arbitrary: P io)
  case Nil
  show ?case by (simp add: parsed_samples_simps)
next
  case (Cons line lines)
  show ?case
  proof (cases "line = []")
    case True
    then show ?thesis using Cons by (simp add: parsed_samples_simps)
  next
    case False
    show ?thesis
    proof (cases "parse_sample_line L line")
      case None
      with False show ?thesis using Cons by (simp add: parsed_samples_simps)
    next
      case (Some s)
      have "wf_params (gd_step P s)"
        by (rule wf_params_gd_step)
      from Cons.IH [OF this] False Some Cons.prems show ?thesis
        by (simp add: parsed_samples_simps run_stream_body_train mse_loss_def)
    qed
  qed
qed


subsection \<open>The forward pass as a function of one parameter\<close>

lemma foldl_add_sum:
  fixes f :: "nat \<Rightarrow> real"
  shows "foldl (\<lambda>a i. a + f i) b [0..<n] = b + (\<Sum>i<n. f i)"
  by (induction n) simp_all

lemma hidden_z_sum:
  "hidden_z P s j = g_b1 P ! j + (\<Sum>k<INPUT_DIM. g_W1 P ! j ! k * s_x s ! k)"
  by (simp add: hidden_z_def foldl_add_sum)

lemma compute_forward_sum:
  "compute_forward P s = g_b2 P + (\<Sum>j<HIDDEN_DIM. g_w2 P ! j * relu (hidden_z P s j))"
proof -
  let ?a1 = "map relu (map (hidden_z P s) [0..<HIDDEN_DIM])"
  have "compute_forward P s = g_b2 P + (\<Sum>j<HIDDEN_DIM. g_w2 P ! j * ?a1 ! j)"
    by (simp add: compute_forward_def forward_all_def Let_def foldl_add_sum)
  also have "(\<Sum>j<HIDDEN_DIM. g_w2 P ! j * ?a1 ! j) = (\<Sum>j<HIDDEN_DIM. g_w2 P ! j * relu (hidden_z P s j))"
    by (rule sum.cong) simp_all
  finally show ?thesis .
qed

lemma sum_update_one:
  fixes g :: "nat \<Rightarrow> real"
  assumes "j < n"
  shows "(\<Sum>i<n. if i = j then a else g i) = (\<Sum>i<n. g i) + (a - g j)"
proof -
  have "(\<Sum>i<n. if i = j then a else g i) = (\<Sum>i<n. g i + (if i = j then a - g j else 0))"
    by (rule sum.cong) simp_all
  also have "\<dots> = (\<Sum>i<n. g i) + (\<Sum>i<n. if i = j then a - g j else 0)"
    by (rule sum.distrib)
  also have "(\<Sum>i<n. if i = j then a - g j else 0) = a - g j"
    using assms by simp
  finally show ?thesis .
qed

text \<open>Changing one parameter and nothing else.\<close>

lemma hidden_z_b2: "hidden_z (P\<lparr>g_b2 := t\<rparr>) s j = hidden_z P s j"
  by (simp add: hidden_z_def)

lemma forward_b2: "compute_forward (P\<lparr>g_b2 := t\<rparr>) s = compute_forward P s + (t - g_b2 P)"
  by (simp add: compute_forward_sum hidden_z_b2)

lemma hidden_z_w2: "hidden_z (P\<lparr>g_w2 := w\<rparr>) s j = hidden_z P s j"
  by (simp add: hidden_z_def)

lemma forward_w2:
  assumes "wf_params P" and "j < HIDDEN_DIM"
  shows "compute_forward (P\<lparr>g_w2 := (g_w2 P)[j := t]\<rparr>) s
           = compute_forward P s + (t - g_w2 P ! j) * relu (hidden_z P s j)"
proof -
  from assms have len: "length (g_w2 P) = HIDDEN_DIM"
    by (simp add: wf_params_def)
  have "(\<Sum>i<HIDDEN_DIM. (g_w2 P)[j := t] ! i * relu (hidden_z P s i))
        = (\<Sum>i<HIDDEN_DIM. if i = j then t * relu (hidden_z P s j) else g_w2 P ! i * relu (hidden_z P s i))"
    by (rule sum.cong) (simp_all add: len nth_list_update)
  also have "\<dots> = (\<Sum>i<HIDDEN_DIM. g_w2 P ! i * relu (hidden_z P s i))
                     + (t * relu (hidden_z P s j) - g_w2 P ! j * relu (hidden_z P s j))"
    using assms(2) by (rule sum_update_one)
  finally show ?thesis
    by (simp add: compute_forward_sum hidden_z_w2 algebra_simps)
qed

lemma hidden_z_b1:
  assumes "wf_params P" and "j < HIDDEN_DIM"
  shows "hidden_z (P\<lparr>g_b1 := (g_b1 P)[j := t]\<rparr>) s i
           = (if i = j then hidden_z P s j + (t - g_b1 P ! j) else hidden_z P s i)"
  using assms by (simp add: hidden_z_sum wf_params_def nth_list_update)

lemma forward_one_unit:
  assumes "j < HIDDEN_DIM" and "g_w2 P' = g_w2 P" and "g_b2 P' = g_b2 P"
    and "\<And>i. i < HIDDEN_DIM \<Longrightarrow> hidden_z P' s i = (if i = j then z else hidden_z P s i)"
  shows "compute_forward P' s = compute_forward P s + g_w2 P ! j * (relu z - relu (hidden_z P s j))"
proof -
  have "(\<Sum>i<HIDDEN_DIM. g_w2 P' ! i * relu (hidden_z P' s i))
        = (\<Sum>i<HIDDEN_DIM. if i = j then g_w2 P ! j * relu z else g_w2 P ! i * relu (hidden_z P s i))"
    by (rule sum.cong) (simp_all add: assms)
  also have "\<dots> = (\<Sum>i<HIDDEN_DIM. g_w2 P ! i * relu (hidden_z P s i))
                     + (g_w2 P ! j * relu z - g_w2 P ! j * relu (hidden_z P s j))"
    using assms(1) by (rule sum_update_one)
  finally show ?thesis
    by (simp add: compute_forward_sum assms(3) algebra_simps)
qed

lemma forward_b1:
  assumes "wf_params P" and "j < HIDDEN_DIM"
  shows "compute_forward (P\<lparr>g_b1 := (g_b1 P)[j := t]\<rparr>) s
           = compute_forward P s
             + g_w2 P ! j * (relu (hidden_z P s j + (t - g_b1 P ! j)) - relu (hidden_z P s j))"
  by (rule forward_one_unit) (simp_all add: assms hidden_z_b1)

lemma hidden_z_W1:
  assumes "wf_params P" and "j < HIDDEN_DIM" and "k < INPUT_DIM"
  shows "hidden_z (P\<lparr>g_W1 := (g_W1 P)[j := (g_W1 P ! j)[k := t]]\<rparr>) s i
           = (if i = j then hidden_z P s j + (t - g_W1 P ! j ! k) * s_x s ! k else hidden_z P s i)"
proof (cases "i = j")
  case False
  then show ?thesis
    by (simp add: hidden_z_sum nth_list_update)
next
  case True
  from assms have lenW: "length (g_W1 P) = HIDDEN_DIM" and row: "length (g_W1 P ! j) = INPUT_DIM"
    by (simp_all add: wf_params_def list_all_length)
  have "(\<Sum>l<INPUT_DIM. (g_W1 P ! j)[k := t] ! l * s_x s ! l)
        = (\<Sum>l<INPUT_DIM. if l = k then t * s_x s ! k else g_W1 P ! j ! l * s_x s ! l)"
    by (rule sum.cong) (simp_all add: row nth_list_update)
  also have "\<dots> = (\<Sum>l<INPUT_DIM. g_W1 P ! j ! l * s_x s ! l)
                     + (t * s_x s ! k - g_W1 P ! j ! k * s_x s ! k)"
    using assms(3) by (rule sum_update_one)
  finally show ?thesis
    using True assms(2) by (simp add: hidden_z_sum lenW algebra_simps)
qed

lemma forward_W1:
  assumes "wf_params P" and "j < HIDDEN_DIM" and "k < INPUT_DIM"
  shows "compute_forward (P\<lparr>g_W1 := (g_W1 P)[j := (g_W1 P ! j)[k := t]]\<rparr>) s
           = compute_forward P s
             + g_w2 P ! j * (relu (hidden_z P s j + (t - g_W1 P ! j ! k) * s_x s ! k)
                              - relu (hidden_z P s j))"
  by (rule forward_one_unit) (simp_all add: assms hidden_z_W1)


subsection \<open>Partial derivatives of the loss\<close>

lemma relu_affine_deriv:
  assumes "z \<noteq> 0"
  shows "((\<lambda>t. relu (z + (t - w) * c)) has_real_derivative (if z > 0 then c else 0)) (at w)"
proof -
  define d where "d = \<bar>z\<bar> / (\<bar>c\<bar> + 1)"
  have d_pos: "0 < d"
    using assms by (simp add: d_def)
  have small: "\<bar>(t - w) * c\<bar> < \<bar>z\<bar>" if "dist t w < d" for t
  proof -
    from that have "\<bar>t - w\<bar> * (\<bar>c\<bar> + 1) < \<bar>z\<bar>"
      by (simp add: d_def dist_real_def pos_less_divide_eq)
    moreover have "\<bar>t - w\<bar> * \<bar>c\<bar> \<le> \<bar>t - w\<bar> * (\<bar>c\<bar> + 1)"
      by (simp add: mult_left_mono)
    ultimately show ?thesis
      by (simp add: abs_mult)
  qed
  show ?thesis
  proof (cases "z > 0")
    case True
    have base: "((\<lambda>t. z + (t - w) * c) has_real_derivative c) (at w)"
      by (auto intro!: derivative_eq_intros)
    have same: "z + (t - w) * c = relu (z + (t - w) * c)" if "dist t w < d" for t
      using small [OF that] True by (simp add: relu_def abs_if split: if_splits)
    have "((\<lambda>t. relu (z + (t - w) * c)) has_real_derivative c) (at w)"
    proof (rule has_field_derivative_transform_within [OF base d_pos])
      show "w \<in> UNIV"
        by simp
      show "z + (t - w) * c = relu (z + (t - w) * c)" if "dist t w < d" for t
        using that by (rule same)
    qed
    with True show ?thesis
      by simp
  next
    case False
    with assms have neg: "z < 0"
      by simp
    have base: "((\<lambda>t. 0 :: real) has_real_derivative 0) (at w)"
      by simp
    have same: "0 = relu (z + (t - w) * c)" if "dist t w < d" for t
      using small [OF that] neg by (simp add: relu_def abs_if split: if_splits)
    have "((\<lambda>t. relu (z + (t - w) * c)) has_real_derivative 0) (at w)"
    proof (rule has_field_derivative_transform_within [OF base d_pos])
      show "w \<in> UNIV"
        by simp
      show "0 = relu (z + (t - w) * c)" if "dist t w < d" for t
        using that by (rule same)
    qed
    with False show ?thesis
      by simp
  qed
qed

lemma squared_error_deriv:
  assumes "(f has_real_derivative D) (at w)" and "f w = r"
  shows "((\<lambda>t. 0.5 * (A + B * (f t - r))\<^sup>2) has_real_derivative A * B * D) (at w)"
  using assms(2) by (auto intro!: derivative_eq_intros assms(1))

lemma loss_deriv_b2:
  "((\<lambda>t. mse_loss (P\<lparr>g_b2 := t\<rparr>) s) has_real_derivative grad_b2 P s) (at (g_b2 P))"
proof -
  have "((\<lambda>t. t - g_b2 P) has_real_derivative 1) (at (g_b2 P))"
    by (auto intro!: derivative_eq_intros)
  from squared_error_deriv [OF this, of 0 "compute_forward P s - s_y s" 1]
  show ?thesis
    by (simp add: mse_loss_def forward_b2 grad_b2_def algebra_simps)
qed

lemma loss_deriv_w2:
  assumes "wf_params P" and "j < HIDDEN_DIM"
  shows "((\<lambda>t. mse_loss (P\<lparr>g_w2 := (g_w2 P)[j := t]\<rparr>) s) has_real_derivative grad_w2 P s j)
           (at (g_w2 P ! j))"
proof -
  have "((\<lambda>t. (t - g_w2 P ! j) * relu (hidden_z P s j)) has_real_derivative relu (hidden_z P s j))
          (at (g_w2 P ! j))"
    by (auto intro!: derivative_eq_intros)
  from squared_error_deriv [OF this, of 0 "compute_forward P s - s_y s" 1]
  show ?thesis
    by (simp add: mse_loss_def forward_w2 [OF assms] grad_w2_def algebra_simps)
qed

lemma loss_deriv_b1:
  assumes "wf_params P" and "j < HIDDEN_DIM" and "hidden_z P s j \<noteq> 0"
  shows "((\<lambda>t. mse_loss (P\<lparr>g_b1 := (g_b1 P)[j := t]\<rparr>) s) has_real_derivative grad_b1 P s j)
           (at (g_b1 P ! j))"
proof -
  from relu_affine_deriv [OF assms(3), of "g_b1 P ! j" 1]
  have "((\<lambda>t. relu (hidden_z P s j + (t - g_b1 P ! j))) has_real_derivative
           (if hidden_z P s j > 0 then 1 else 0)) (at (g_b1 P ! j))"
    by simp
  note D = squared_error_deriv [OF this, of "relu (hidden_z P s j)" "compute_forward P s - s_y s" "g_w2 P ! j"]
  show ?thesis
  proof (cases "0 < hidden_z P s j")
    case True
    with D show ?thesis
      by (simp add: mse_loss_def forward_b1 [OF assms(1,2)] grad_b1_def algebra_simps)
  next
    case False
    with D show ?thesis
      by (simp add: mse_loss_def forward_b1 [OF assms(1,2)] grad_b1_def algebra_simps)
  qed
qed

lemma loss_deriv_W1:
  assumes "wf_params P" and "j < HIDDEN_DIM" and "k < INPUT_DIM" and "hidden_z P s j \<noteq> 0"
  shows "((\<lambda>t. mse_loss (P\<lparr>g_W1 := (g_W1 P)[j := (g_W1 P ! j)[k := t]]\<rparr>) s)
            has_real_derivative grad_W1 P s j k) (at (g_W1 P ! j ! k))"
proof -
  note D = squared_error_deriv [OF relu_affine_deriv [OF assms(4), of "g_W1 P ! j ! k" "s_x s ! k"],
      of "relu (hidden_z P s j)" "compute_forward P s - s_y s" "g_w2 P ! j"]
  show ?thesis
  proof (cases "0 < hidden_z P s j")
    case True
    with D show ?thesis
      by (simp add: mse_loss_def forward_W1 [OF assms(1,2,3)] grad_W1_def grad_b1_def algebra_simps)
  next
    case False
    with D show ?thesis
      by (simp add: mse_loss_def forward_W1 [OF assms(1,2,3)] grad_W1_def grad_b1_def algebra_simps)
  qed
qed


lemma gd_step_gradient_step:
  assumes "wf_params P" and "smooth P s"
  shows "gradient_step P s (gd_step P s)"
proof -
  from assms(2) have nz: "hidden_z P s j \<noteq> 0" if "j < HIDDEN_DIM" for j
    using that by (simp add: smooth_def list_all_iff)
  have W1: "\<exists>D. ((\<lambda>t. mse_loss (P\<lparr>g_W1 := (g_W1 P)[j := (g_W1 P ! j)[k := t]]\<rparr>) s) has_real_derivative D)
          (at (g_W1 P ! j ! k))
        \<and> g_W1 (gd_step P s) ! j ! k = g_W1 P ! j ! k - LEARNING_RATE * D"
    if "j < HIDDEN_DIM" and "k < INPUT_DIM" for j k
    using loss_deriv_W1 [OF assms(1) that nz [OF that(1)]] that
    by (intro exI [of _ "grad_W1 P s j k"]) (simp add: gd_step_def)
  have b1: "\<exists>D. ((\<lambda>t. mse_loss (P\<lparr>g_b1 := (g_b1 P)[j := t]\<rparr>) s) has_real_derivative D) (at (g_b1 P ! j))
        \<and> g_b1 (gd_step P s) ! j = g_b1 P ! j - LEARNING_RATE * D"
    if "j < HIDDEN_DIM" for j
    using loss_deriv_b1 [OF assms(1) that nz [OF that]] that
    by (intro exI [of _ "grad_b1 P s j"]) (simp add: gd_step_def)
  have w2: "\<exists>D. ((\<lambda>t. mse_loss (P\<lparr>g_w2 := (g_w2 P)[j := t]\<rparr>) s) has_real_derivative D) (at (g_w2 P ! j))
        \<and> g_w2 (gd_step P s) ! j = g_w2 P ! j - LEARNING_RATE * D"
    if "j < HIDDEN_DIM" for j
    using loss_deriv_w2 [OF assms(1) that] that
    by (intro exI [of _ "grad_w2 P s j"]) (simp add: gd_step_def)
  have b2: "\<exists>D. ((\<lambda>t. mse_loss (P\<lparr>g_b2 := t\<rparr>) s) has_real_derivative D) (at (g_b2 P))
        \<and> g_b2 (gd_step P s) = g_b2 P - LEARNING_RATE * D"
    using loss_deriv_b2 [of P s]
    by (intro exI [of _ "grad_b2 P s"]) (simp add: gd_step_def)
  from W1 b1 w2 b2 show ?thesis
    unfolding gradient_step_def by blast
qed

lemma wf_params_foldl_gd_step: "wf_params P \<Longrightarrow> wf_params (foldl gd_step P ss)"
  by (induction ss arbitrary: P) (simp_all add: wf_params_gd_step)

lemma parse_line_7: "parse_sample_line decimal_lib ''7 1 2 3 4 2'' = Some sample_7"
  by (simp add: sample_7_def parse_eval dec_eval)

lemma forward_example_7: "compute_forward init_params sample_7 = 0.05"
  by (simp add: sample_7_def forward_eval init_params_def)

lemma smooth_example_7: "smooth init_params sample_7"
  by (simp add: smooth_def sample_7_def upt_HIDDEN_DIM hidden_z_def upt_INPUT_DIM init_params_def)

text \<open>
  C2. In train mode, started from parameter arrays of the fixed sizes, the learner applies
  \<open>gd_step\<close> once for every accepted record, in arrival order: the parameters at the
  end are the left fold of \<open>gd_step\<close> over the accepted records. It answers every
  accepted record with its id, the loss \<open>0.5 * (prediction - label)\<^sup>2\<close> and the
  prediction, computed from the parameters before that record's update, and a line that
  does not parse only leaves a diagnostic. \<open>gd_step\<close> moves every parameter by the
  learning rate times its reverse-mode derivative; whenever no hidden unit sits on the
  kink of its ReLU for the record at hand, that is a gradient-descent step: the
  reverse-mode derivative of every parameter is the partial derivative of the loss.
\<close>

theorem train_mode_gradient_descent:
  assumes "wf_params P"
  shows "run_stream L Train P lines =
           (0, foldl gd_step P (parsed_samples L lines),
            \<lparr>out = train_lines L P (parsed_samples L lines),
             err = map (\<lambda>line. ''backward_layer: failed to parse line: '' @ line)
                     (filter (\<lambda>line. line \<noteq> [] \<and> parse_sample_line L line = None) lines)\<rparr>)
     \<and> (\<forall>n<length (parsed_samples L lines).
          smooth (foldl gd_step P (take n (parsed_samples L lines))) (parsed_samples L lines ! n) \<longrightarrow>
          gradient_step (foldl gd_step P (take n (parsed_samples L lines)))
            (parsed_samples L lines ! n)
            (foldl gd_step P (take (Suc n) (parsed_samples L lines))))"
proof -
  have "gradient_step (foldl gd_step P (take n ss)) (ss ! n) (foldl gd_step P (take (Suc n) ss))"
    if "n < length ss" and "smooth (foldl gd_step P (take n ss)) (ss ! n)" for n ss
  proof -
    have "wf_params (foldl gd_step P (take n ss))"
      using assms by (rule wf_params_foldl_gd_step)
    from gd_step_gradient_step [OF this that(2)] that(1) show ?thesis
      by (simp add: take_Suc_conv_app_nth)
  qed
  then show ?thesis
    by (simp add: run_stream_def run_stream_loop_train [OF assms])
qed


theorem train_mode_gradient_descent_witness:
  "wf_params init_params
   \<and> run_stream decimal_lib Train init_params [''7 1 2 3 4 2'', ''x'']
       = (0, gd_step init_params sample_7,
          \<lparr>out = [''7 1.901250 0.050000''], err = [''backward_layer: failed to parse line: x'']\<rparr>)
   \<and> g_b2 (gd_step init_params sample_7) = 0.00195
   \<and> smooth init_params sample_7
   \<and> gradient_step init_params sample_7 (gd_step init_params sample_7)"
proof -
  have recs: "parsed_samples decimal_lib [''7 1 2 3 4 2'', ''x''] = [sample_7]"
    by (simp add: parsed_samples_simps parse_line_7 parse_line_x)
  from train_mode_gradient_descent [OF wf_params_init, of decimal_lib "[''7 1 2 3 4 2'', ''x'']"]
  have run: "run_stream decimal_lib Train init_params [''7 1 2 3 4 2'', ''x'']
       = (0, gd_step init_params sample_7,
          \<lparr>out = [''7 1.901250 0.050000''], err = [''backward_layer: failed to parse line: x'']\<rparr>)"
    and step: "smooth init_params sample_7 \<longrightarrow> gradient_step init_params sample_7 (gd_step init_params sample_7)"
    unfolding recs
    by (simp_all add: parse_line_7 parse_line_x forward_example_7 sample_7_def [THEN arg_cong, of s_y]
        sample_7_def [THEN arg_cong, of s_id])
      (simp add: result_line_def dec_eval power2_eq_square)
  have b2: "g_b2 (gd_step init_params sample_7) = 0.00195"
    by (simp add: gd_step_def grad_b2_def forward_example_7 LEARNING_RATE_def)
      (simp add: sample_7_def init_params_def)
  from run step b2 smooth_example_7 wf_params_init show ?thesis
    by simp
qed


section \<open>Order of the records through the pipeline\<close>

subsection \<open>What each stage writes\<close>

lemma csv_samples_simps:
  "csv_samples L [] = []"
  "csv_samples L ([] # lines) = csv_samples L lines"
  "line \<noteq> [] \<Longrightarrow> parse_csv_line L line = None \<Longrightarrow> csv_samples L (line # lines) = csv_samples L lines"
  "line \<noteq> [] \<Longrightarrow> parse_csv_line L line = Some s \<Longrightarrow> csv_samples L (line # lines) = s # csv_samples L lines"
  by (simp_all add: csv_samples_def List.map_filter_simps)

lemma preprocess_loop_out:
  "out (preprocess_loop L io lines)
     = out io @ map (\<lambda>s. sample_to_line L (finite_sample (normalize_sample s))) (csv_samples L lines)"
proof (induction lines arbitrary: io)
  case Nil
  show ?case by (simp add: csv_samples_simps)
next
  case (Cons line lines)
  show ?case
  proof (cases "line = []")
    case True
    then show ?thesis using Cons.IH by (simp add: csv_samples_simps)
  next
    case False
    then show ?thesis
      using Cons.IH by (cases "parse_csv_line L line") (simp_all add: csv_samples_simps)
  qed
qed

lemma forward_layer_loop_out:
  "out (forward_layer_loop L io lines)
     = out io @ map (\<lambda>s. sample_to_line L (augment_features s)) (parsed_samples L lines)"
proof (induction lines arbitrary: io)
  case Nil
  show ?case by (simp add: parsed_samples_simps)
next
  case (Cons line lines)
  show ?case
  proof (cases "line = []")
    case True
    then show ?thesis using Cons.IH by (simp add: parsed_samples_simps)
  next
    case False
    then show ?thesis
      using Cons.IH by (cases "parse_sample_line L line") (simp_all add: parsed_samples_simps)
  qed
qed


lemma preprocess_out_written:
  "preprocess_out L csv_path csv
     = map (\<lambda>s. sample_to_line L (finite_sample (normalize_sample s))) (csv_samples L csv)"
  by (simp add: preprocess_out_def preprocess_run_def preprocess_loop_out)

lemma forward_out_written:
  "forward_out L lines = map (\<lambda>s. sample_to_line L (augment_features s)) (parsed_samples L lines)"
  by (simp add: forward_out_def forward_layer_run_def forward_layer_loop_out)







subsection \<open>A record that is read back has kept its id\<close>



















subsection \<open>The ids that the logger echoes\<close>

lemma s_id_kept [simp]:
  "s_id (finite_sample s) = s_id s"
  "s_id (normalize_sample s) = s_id s"
  "s_id (augment_features s) = s_id s"
  by (simp_all add: finite_sample_def normalize_sample_def augment_features_def)







subsection \<open>The decimal library reads back the ids it writes\<close>

















lemma read_csv_features_numeral:
  "read_csv_features L (numeral n) i xs ss =
     (case get_float L ss of
        Failure _ \<Rightarrow> None
      | Extracted v ss' \<Rightarrow>
          if i < INPUT_DIM - 1 then
            (case read_comma L ss' of
               None \<Rightarrow> None
             | Some ss'' \<Rightarrow> read_csv_features L (pred_numeral n) (Suc i) (xs[i := v]) ss'')
          else read_csv_features L (pred_numeral n) (Suc i) (xs[i := v]) ss')"
  by (simp add: numeral_eq_Suc)

lemma read_csv_features_1:
  "read_csv_features L (Suc 0) i xs ss =
     (case get_float L ss of
        Failure _ \<Rightarrow> None
      | Extracted v ss' \<Rightarrow>
          if i < INPUT_DIM - 1 then
            (case read_comma L ss' of
               None \<Rightarrow> None
             | Some ss'' \<Rightarrow> Some (xs[i := v], ss''))
          else Some (xs[i := v], ss'))"
  by (simp split: extraction.splits option.splits)

lemmas csv_eval = parse_csv_line_def read_comma_def empty_sample_def
  read_csv_features_numeral read_csv_features_1 replicate_numeral

lemma csv_samples_example:
  "csv_samples decimal_lib csv_example
     = [\<lparr>s_x = [0.5, 0, 0, 3], s_y = 2, s_id = 1\<rparr>, \<lparr>s_x = [1, 0, 0, 0], s_y = 1, s_id = 2\<rparr>]"
proof -
  have "parse_csv_line decimal_lib ''1,0.5,0,0,3,2'' = Some \<lparr>s_x = [0.5, 0, 0, 3], s_y = 2, s_id = 1\<rparr>"
    by (simp add: csv_eval INPUT_DIM_def dec_eval)
  moreover have "parse_csv_line decimal_lib ''bogus line'' = None"
    by (simp add: csv_eval INPUT_DIM_def dec_eval)
  moreover have "parse_csv_line decimal_lib ''2, 1, 0, 0, 0, 1'' = Some \<lparr>s_x = [1, 0, 0, 0], s_y = 1, s_id = 2\<rparr>"
    by (simp add: csv_eval INPUT_DIM_def dec_eval)
  ultimately show ?thesis
    by (simp add: csv_example_def csv_samples_simps)
qed

subsection \<open>Two datasets through the pipeline\<close>

lemmas stage_eval = sample_to_line_def finite_sample_def normalize_sample_def normalize_features_def
  FEATURE_MEAN_def FEATURE_STD_def upt_INPUT_DIM augment_features_def augment_def float_square_def
  FLT_MAX_def

lemma preprocess_out_example:
  "preprocess_out decimal_lib csv_path csv_example
     = [''1 0.500000 0.000000 0.000000 3.000000 2.000000'',
        ''2 1.000000 0.000000 0.000000 0.000000 1.000000'']"
  by (simp add: preprocess_out_written csv_samples_example stage_eval) (simp add: dec_eval)

lemma parse_line_1a:
  "parse_sample_line decimal_lib ''1 0.500000 0.000000 0.000000 3.000000 2.000000''
     = Some \<lparr>s_x = [0.5, 0, 0, 3], s_y = 2, s_id = 1\<rparr>"
  by (simp add: parse_eval dec_eval)

lemma parse_line_2a:
  "parse_sample_line decimal_lib ''2 1.000000 0.000000 0.000000 0.000000 1.000000''
     = Some \<lparr>s_x = [1, 0, 0, 0], s_y = 1, s_id = 2\<rparr>"
  by (simp add: parse_eval dec_eval)

lemma forward_out_example:
  "forward_out decimal_lib
     [''1 0.500000 0.000000 0.000000 3.000000 2.000000'',
      ''2 1.000000 0.000000 0.000000 0.000000 1.000000'']
     = [''1 0.500000 0.000000 0.000000 9.000000 2.000000'',
        ''2 1.000000 0.000000 0.000000 0.000000 1.000000'']"
  by (simp add: forward_out_written parsed_samples_simps parse_line_1a
      parse_line_2a sample_to_line_def upt_INPUT_DIM augment_features_def)
    (simp add: augment_def float_square_def FLT_MAX_def INPUT_DIM_def dec_eval)


lemma parse_line_1b:
  "parse_sample_line decimal_lib ''1 0.500000 0.000000 0.000000 9.000000 2.000000''
     = Some \<lparr>s_x = [1 / 2, 0, 0, 9], s_y = 2, s_id = 1\<rparr>"
  by (simp add: parse_eval dec_eval)

lemma forward_example_1b:
  "compute_forward init_params \<lparr>s_x = [1 / 2, 0, 0, 9], s_y = 2, s_id = 1\<rparr> = 0.0475"
  by (simp add: forward_eval init_params_def)

lemma learner_out_test:
  "learner_out L Test P lines
     = map (\<lambda>s. result_line L (s_id s) (0.5 * (compute_forward P s - s_y s)\<^sup>2) (compute_forward P s))
         (parsed_samples L lines)"
  by (simp add: learner_out_def run_stream_def run_stream_loop_test)

lemma learner_out_example:
  "learner_out decimal_lib Test init_params
     [''1 0.500000 0.000000 0.000000 9.000000 2.000000'',
      ''2 1.000000 0.000000 0.000000 0.000000 1.000000'']
     = [''1 1.906128 0.047500'', ''2 0.495012 0.005000'']"
  by (simp add: learner_out_test parsed_samples_simps parse_line_1b parse_line_2a
      forward_example_1b forward_example_2)
    (simp add: result_line_def dec_eval power2_eq_square)

lemma parse_result_1b: "parse_result_line decimal_lib ''1 1.906128 0.047500'' = Some (1, 1.906128, 0.0475)"
  by (simp add: parse_result_line_def dec_eval)

lemma parse_result_2b: "parse_result_line decimal_lib ''2 0.495012 0.005000'' = Some (2, 0.495012, 0.005)"
  by (simp add: parse_result_line_def dec_eval)

lemma events_no_signal:
  "events no_signal [] = []"
  "events no_signal [a] = [(a, False, False)]"
  "events no_signal [a, b] = [(a, False, False), (b, False, False)]"
  by (simp_all add: events_def no_signal_def upt_rec)


lemma pipeline_example:
  "pipeline decimal_lib Test init_params no_signal csv_path csv_example
     = [''SAMPLE 1 LOSS 1.906128 YHAT 0.047500'', ''SAMPLE 2 LOSS 0.495012 YHAT 0.005000'',
        ''SUMMARY 2 1.200570 0.026250'']"
  unfolding pipeline_def preprocess_out_example forward_out_example learner_out_example logger_out_def
  by (simp add: events_no_signal logger_run_def logger_init_def parse_result_1b parse_result_2b
      deliver_def account_def snapshot_def final_summary_def average_def Let_def)
    (simp add: sample_line_def summary_line_def dec_eval)










subsection \<open>The ids at the end of the pipeline\<close>




end
